theory Spec2Isabelle
  imports
    Complex_Main
    "HOL-Library.AList"
    "HOL-Library.Char_ord"
    "HOL-Library.List_Lexorder"
    "HOL-Library.Product_Lexorder"
    "HOL-Library.Multiset"
begin

section \<open>Python values and errors\<close>

text \<open>
  Numbers read from JSON, from the database and from filing text are Python ints and
  floats. The model takes finite numbers as exact rationals: its arithmetic is Python's
  wherever Python's result is exact, and it says nothing about the rounding of binary
  floats. The ratio code can also meet NaN and the infinities, and has a float type of
  its own below. Strings compare as Python compares them, lexicographically by
  character.
\<close>

datatype py_error = TypeError | ValueError | ZeroDivisionError

text \<open>Truthiness of a number that may be \<open>None\<close>: \<open>None\<close> and zero are falsy.\<close>

definition truthy_num :: "rat option \<Rightarrow> bool" where
  "truthy_num v = (case v of None \<Rightarrow> False | Some x \<Rightarrow> x \<noteq> 0)"

text \<open>Truthiness of a string that may be \<open>None\<close>: \<open>None\<close> and the empty string are falsy.\<close>

definition truthy_str :: "string option \<Rightarrow> bool" where
  "truthy_str s = (case s of None \<Rightarrow> False | Some x \<Rightarrow> x \<noteq> [])"

text \<open>
  \<open>a > b\<close> where either side may be \<open>None\<close>: Python 3 orders strings among
  themselves and raises TypeError as soon as one operand is \<open>None\<close>.
\<close>

definition py_gt :: "string option \<Rightarrow> string option \<Rightarrow> py_error + bool" where
  "py_gt a b =
     (case a of
        None \<Rightarrow> Inl TypeError
      | Some x \<Rightarrow> (case b of None \<Rightarrow> Inl TypeError | Some y \<Rightarrow> Inr (y < x)))"

text \<open>
  \<open>list.sort(key=f, reverse=True)\<close>: descending by key and stable, elements with equal
  keys keep the order they had (CPython reverses, sorts stably, reverses again).
\<close>

definition sort_reverse :: "('a \<Rightarrow> 'k::linorder) \<Rightarrow> 'a list \<Rightarrow> 'a list" where
  "sort_reverse f xs = rev (sort_key f (rev xs))"

section \<open>Quarterly reconciliation of XBRL facts (Teste2.py)\<close>

text \<open>
  One fact of the SEC company-facts JSON. Every field is read with \<open>item.get\<close>, so
  each may be missing: \<open>None\<close> is the missing key.
\<close>

record item =
  i_form :: "string option"
  i_fy :: "int option"
  i_fp :: "string option"
  i_end :: "string option"
  i_val :: "rat option"
  i_filed :: "string option"

definition NUM_QUARTERS :: nat where
  "NUM_QUARTERS = 8"

text \<open>The sort key \<open>(x.get('end', ''), x.get('filed', ''))\<close>.\<close>

definition get_str :: "string option \<Rightarrow> string" where
  "get_str s = (case s of None \<Rightarrow> [] | Some x \<Rightarrow> x)"

definition item_key :: "item \<Rightarrow> string \<times> string" where
  "item_key x = (get_str (i_end x), get_str (i_filed x))"

text \<open>
  \<open>extract_quarterly_data\<close>: the argument is the list of facts the metric has in the
  requested unit (\<open>None\<close> when the metric is not in the taxonomy section, the empty
  list when it has no fact in that unit). Only 10-Q and 10-K facts are kept, most recent
  first.
\<close>

definition is_quarterly_or_annual :: "item \<Rightarrow> bool" where
  "is_quarterly_or_annual x = (i_form x = Some ''10-Q'' \<or> i_form x = Some ''10-K'')"

definition extract_quarterly_data :: "item list option \<Rightarrow> item list \<times> bool" where
  "extract_quarterly_data metric_data =
     (case metric_data of
        None \<Rightarrow> ([], False)
      | Some md \<Rightarrow> (sort_reverse item_key (filter is_quarterly_or_annual md), True))"

definition format_value :: "rat option \<Rightarrow> rat option" where
  "format_value v = (case v of None \<Rightarrow> None | Some x \<Rightarrow> Some x)"

text \<open>What \<open>fiscal_years[fy][key]\<close> holds.\<close>

record entry =
  e_value :: "rat option"
  e_end_date :: "string option"
  e_filed :: "string option"
  e_fp :: string

type_synonym year_data = "(string \<times> entry) list"
type_synonym fiscal_years = "(int \<times> year_data) list"

definition entry_of :: "item \<Rightarrow> string \<Rightarrow> entry" where
  "entry_of x p = \<lparr>e_value = i_val x, e_end_date = i_end x, e_filed = i_filed x, e_fp = p\<rparr>"

text \<open>
  One turn of the loop over \<open>all_data\<close> (lines 252 to 273): facts without fiscal year or
  end date are skipped; a fact replaces the stored one of its period only when it was
  filed strictly later. The comparison is reached only when the period is already
  stored, and raises when a filing date is missing.
\<close>

definition add_item :: "item \<Rightarrow> fiscal_years \<Rightarrow> py_error + fiscal_years" where
  "add_item x fys =
     (case i_fy x of
        None \<Rightarrow> Inr fys
      | Some y \<Rightarrow>
          if y = 0 \<or> \<not> truthy_str (i_end x) then Inr fys
          else
            let fys1 = (if map_of fys y = None then AList.update y [] fys else fys);
                p = (case i_fp x of None \<Rightarrow> ''FY'' | Some s \<Rightarrow> s);
                yd = (case map_of fys1 y of None \<Rightarrow> [] | Some d \<Rightarrow> d)
            in (case map_of yd p of
                  None \<Rightarrow> Inr (AList.update y (AList.update p (entry_of x p) yd) fys1)
                | Some old \<Rightarrow>
                    (case py_gt (i_filed x) (e_filed old) of
                       Inl err \<Rightarrow> Inl err
                     | Inr True \<Rightarrow> Inr (AList.update y (AList.update p (entry_of x p) yd) fys1)
                     | Inr False \<Rightarrow> Inr fys1)))"

fun build_fiscal_years :: "item list \<Rightarrow> fiscal_years \<Rightarrow> py_error + fiscal_years" where
  "build_fiscal_years [] fys = Inr fys"
| "build_fiscal_years (x # xs) fys =
     (case add_item x fys of Inl err \<Rightarrow> Inl err | Inr fys' \<Rightarrow> build_fiscal_years xs fys')"

text \<open>One call of \<open>insert_data\<close>, without the arguments that are constant for a metric.\<close>

record row =
  r_fy :: int
  r_fp :: string
  r_end_date :: "string option"
  r_filed :: "string option"
  r_value_type :: string
  r_value :: "rat option"

definition quarters :: "string list" where
  "quarters = [''Q4'', ''Q3'', ''Q2'', ''Q1'']"

definition latest_q :: "year_data \<Rightarrow> string option" where
  "latest_q yd = find (\<lambda>q. map_of yd q \<noteq> None) quarters"

definition prev_q :: "string \<Rightarrow> string option" where
  "prev_q q =
     (if q = ''Q4'' then Some ''Q3''
      else if q = ''Q3'' then Some ''Q2''
      else if q = ''Q2'' then Some ''Q1''
      else None)"

text \<open>Lines 308 to 315: the value stored as Quarterly for a quarter that has a fact.\<close>

definition quarterly_value :: "year_data \<Rightarrow> string \<Rightarrow> entry \<Rightarrow> rat option" where
  "quarterly_value yd q q_data =
     (case prev_q q of
        None \<Rightarrow> e_value q_data
      | Some p \<Rightarrow>
          (case map_of yd p of
             None \<Rightarrow> e_value q_data
           | Some p_data \<Rightarrow>
               if truthy_num (e_value p_data) \<and> truthy_num (e_value q_data)
               then (case (e_value q_data, e_value p_data) of
                       (Some a, Some b) \<Rightarrow> Some (a - b)
                     | _ \<Rightarrow> e_value q_data)
               else e_value q_data))"

definition mk_row :: "int \<Rightarrow> string \<Rightarrow> entry \<Rightarrow> string \<Rightarrow> rat option \<Rightarrow> row" where
  "mk_row y p d vt v =
     \<lparr>r_fy = y, r_fp = p, r_end_date = e_end_date d, r_filed = e_filed d,
      r_value_type = vt, r_value = format_value v\<rparr>"

text \<open>The loop over the quarters of one year; the state is the rows and \<open>quarters_shown\<close>.\<close>

fun quarters_loop :: "int \<Rightarrow> year_data \<Rightarrow> string list \<Rightarrow> row list \<times> nat \<Rightarrow> row list \<times> nat" where
  "quarters_loop y yd [] st = st"
| "quarters_loop y yd (q # qs) (rows, shown) =
     (if shown \<ge> NUM_QUARTERS then (rows, shown)
      else (case map_of yd q of
              None \<Rightarrow> quarters_loop y yd qs (rows, shown)
            | Some q_data \<Rightarrow>
                quarters_loop y yd qs
                  (rows @ [mk_row y q q_data ''Quarterly'' (quarterly_value yd q q_data)],
                   shown + 1)))"

text \<open>The body of the loop over the years, for one year (lines 283 to 331).\<close>

definition process_year :: "int \<Rightarrow> year_data \<Rightarrow> row list \<times> nat \<times> bool \<Rightarrow> row list \<times> nat \<times> bool" where
  "process_year y yd st =
     (case st of (rows, shown, ytd_shown) \<Rightarrow>
        let (rows1, ytd1) =
              (if \<not> ytd_shown then
                 (case latest_q yd of
                    None \<Rightarrow> (rows, ytd_shown)
                  | Some lq \<Rightarrow>
                      (case map_of yd lq of
                         None \<Rightarrow> (rows, ytd_shown)
                       | Some q_data \<Rightarrow>
                           (rows @ [mk_row y lq q_data ''YTD'' (e_value q_data)], True)))
               else (rows, ytd_shown));
            (rows2, shown2) = quarters_loop y yd quarters (rows1, shown);
            rows3 =
              (case map_of yd ''FY'' of
                 None \<Rightarrow> rows2
               | Some fy_data \<Rightarrow>
                   if shown2 < NUM_QUARTERS
                   then rows2 @ [mk_row y ''FY'' fy_data ''Full Year'' (e_value fy_data)]
                   else rows2)
        in (rows3, shown2, ytd1))"

fun years_loop :: "fiscal_years \<Rightarrow> int list \<Rightarrow> row list \<times> nat \<times> bool \<Rightarrow> row list" where
  "years_loop fys [] st = fst st"
| "years_loop fys (y # ys) st =
     (if fst (snd st) \<ge> NUM_QUARTERS then fst st
      else (case map_of fys y of
              None \<Rightarrow> years_loop fys ys st
            | Some yd \<Rightarrow> years_loop fys ys (process_year y yd st)))"

definition sorted_years :: "fiscal_years \<Rightarrow> int list" where
  "sorted_years fys = sort_reverse (\<lambda>y. y) (map fst fys)"

text \<open>
  The body of \<open>process_company\<close> for one metric: the rows handed to \<open>insert_data\<close>, in
  order, or the exception that leaves the function.
\<close>

definition process_metric :: "item list option \<Rightarrow> py_error + row list" where
  "process_metric metric_data =
     (case extract_quarterly_data metric_data of
        (all_data, found) \<Rightarrow>
          if found \<and> all_data \<noteq> [] then
            (case build_fiscal_years all_data [] of
               Inl err \<Rightarrow> Inl err
             | Inr fys \<Rightarrow> Inr (years_loop fys (sorted_years fys) ([], 0, False)))
          else Inr [])"

text \<open>
  The Quarterly values stored for period \<open>q\<close> among the rows handed to
  \<open>insert_data\<close>: how the result of the reconciliation is read off.
\<close>

definition is_quarterly_row :: "string \<Rightarrow> row \<Rightarrow> bool" where
  "is_quarterly_row q r = (r_fp r = q \<and> r_value_type r = ''Quarterly'')"

definition quarterly_values :: "row list \<Rightarrow> string \<Rightarrow> rat option list" where
  "quarterly_values rows q = map r_value (filter (is_quarterly_row q) rows)"

text \<open>The facts of one period \<open>(y, p)\<close> that the loop does not skip, in list order.\<close>

definition period_key :: "item \<Rightarrow> string" where
  "period_key x = (case i_fp x of None \<Rightarrow> ''FY'' | Some s \<Rightarrow> s)"

definition is_candidate :: "int \<Rightarrow> string \<Rightarrow> item \<Rightarrow> bool" where
  "is_candidate y p x = (i_fy x = Some y \<and> y \<noteq> 0 \<and> truthy_str (i_end x) \<and> period_key x = p)"

definition candidates :: "item list \<Rightarrow> int \<Rightarrow> string \<Rightarrow> item list" where
  "candidates xs y p = filter (is_candidate y p) xs"

definition lookup_period :: "fiscal_years \<Rightarrow> int \<Rightarrow> string \<Rightarrow> entry option" where
  "lookup_period fys y p = (case map_of fys y of None \<Rightarrow> None | Some yd \<Rightarrow> map_of yd p)"

text \<open>Sample facts: a 10-Q fact of fiscal year 2023 with all its fields.\<close>

definition fact :: "string \<Rightarrow> string \<Rightarrow> string \<Rightarrow> rat \<Rightarrow> item" where
  "fact p e f v =
     \<lparr>i_form = Some ''10-Q'', i_fy = Some 2023, i_fp = Some p, i_end = Some e,
      i_val = Some v, i_filed = Some f\<rparr>"

text \<open>The same without a filing date.\<close>

definition fact_unfiled :: "string \<Rightarrow> string \<Rightarrow> rat \<Rightarrow> item" where
  "fact_unfiled p e v =
     \<lparr>i_form = Some ''10-Q'', i_fy = Some 2023, i_fp = Some p, i_end = Some e,
      i_val = Some v, i_filed = None\<rparr>"

text \<open>A 10-Q fact of a given fiscal year.\<close>

definition fact_in :: "int \<Rightarrow> string \<Rightarrow> string \<Rightarrow> string \<Rightarrow> rat \<Rightarrow> item" where
  "fact_in y p e f v =
     \<lparr>i_form = Some ''10-Q'', i_fy = Some y, i_fp = Some p, i_end = Some e,
      i_val = Some v, i_filed = Some f\<rparr>"

text \<open>The Quarterly row of one quarter, if the year has a fact for it.\<close>

definition qrow :: "int \<Rightarrow> year_data \<Rightarrow> string \<Rightarrow> row list" where
  "qrow y yd q =
     (case map_of yd q of
        None \<Rightarrow> []
      | Some d \<Rightarrow> [mk_row y q d ''Quarterly'' (quarterly_value yd q d)])"

definition filed_of :: "item \<Rightarrow> string" where
  "filed_of x = get_str (i_filed x)"

text \<open>
  \<open>first_latest p cs r\<close>: the stored entry \<open>r\<close> of a period is the one of the first
  fact among \<open>cs\<close> that no other fact of \<open>cs\<close> was filed after; nothing is stored
  exactly when \<open>cs\<close> is empty.
\<close>

definition first_latest :: "string \<Rightarrow> item list \<Rightarrow> entry option \<Rightarrow> bool" where
  "first_latest p cs r =
     (case r of
        None \<Rightarrow> cs = []
      | Some e \<Rightarrow>
          (\<exists>pre c post. cs = pre @ c # post \<and> e = entry_of c p
             \<and> (\<forall>x\<in>set pre. filed_of x < filed_of c)
             \<and> (\<forall>x\<in>set post. filed_of x \<le> filed_of c)))"

section \<open>Free-text extraction (Clear_Data.py)\<close>

text \<open>
  The regular expressions of the pattern tables. All but one have the shape
  \<open>LABEL\s*[\$]?\s*([\d,]+\.?\d*)\<close> and are named by their label; the fourth revenue
  pattern is \<open>Sales.*?[\$]?\s*([\d,]+\.?\d*)\<close>. The filing text enters the model
  through \<open>re.findall\<close> only: \<open>findall r\<close> is the list of amounts captured by \<open>r\<close>
  in the content, in document order.
\<close>

datatype regex = Amount string | Sales_amount

type_synonym findall = "regex \<Rightarrow> string list"

definition is_digit :: "char \<Rightarrow> bool" where
  "is_digit c = (c \<in> set ''0123456789'')"

text \<open>The value of a decimal digit is its position in the string of the ten digits.\<close>

definition digit_value :: "char \<Rightarrow> int" where
  "digit_value c = int (length (takeWhile (\<lambda>d. d \<noteq> c) ''0123456789''))"

definition int_of_digits :: "string \<Rightarrow> int" where
  "int_of_digits ds = foldl (\<lambda>n c. 10 * n + digit_value c) 0 ds"

text \<open>
  \<open>float(s)\<close> on the strings the capture group \<open>[\d,]+\.?\d*\<close> leaves once the
  commas are removed: digits with at most one point. A string without any digit, or
  with anything else in it, raises ValueError, which is \<open>None\<close> here.
\<close>

definition py_float :: "string \<Rightarrow> rat option" where
  "py_float s =
     (let ip = takeWhile is_digit s; rest = dropWhile is_digit s
      in (case rest of
            [] \<Rightarrow> if ip = [] then None else Some (of_int (int_of_digits ip))
          | c # fp \<Rightarrow>
              if c = CHR ''.'' \<and> list_all is_digit fp \<and> (ip \<noteq> [] \<or> fp \<noteq> [])
              then Some (of_int (int_of_digits ip) + of_int (int_of_digits fp) / 10 ^ length fp)
              else None))"

definition remove_commas :: "string \<Rightarrow> string" where
  "remove_commas s = filter (\<lambda>c. c \<noteq> CHR '','') s"

text \<open>Lines 216 and 217: the scale heuristic.\<close>

definition scale_value :: "rat \<Rightarrow> rat" where
  "scale_value v = (if v < 1000 \<and> v > 0 then v * 1000000 else v)"

text \<open>What the loop body does with one captured amount.\<close>

definition normalize_literal :: "string \<Rightarrow> rat option" where
  "normalize_literal value_str =
     (case py_float (remove_commas value_str) of
        None \<Rightarrow> None
      | Some v \<Rightarrow> Some (scale_value v))"

text \<open>
  The loop over the patterns of one field (lines 207 to 222): the last match of the
  first pattern that has matches and whose last match is a number; a ValueError moves on
  to the next pattern.
\<close>

fun extract_field :: "findall \<Rightarrow> regex list \<Rightarrow> rat option" where
  "extract_field fa [] = None"
| "extract_field fa (pat # pats) =
     (let matches = fa pat
      in if matches \<noteq> [] then
           (case normalize_literal (last matches) of
              None \<Rightarrow> extract_field fa pats
            | Some v \<Rightarrow> Some v)
         else extract_field fa pats)"

text \<open>
  The loop over the fields. It is written three times in the source, for the income
  statement, the balance sheet and the cash flow, with the same body.
\<close>

fun extract_fields :: "findall \<Rightarrow> (string \<times> regex list) list \<Rightarrow> (string \<rightharpoonup> rat) \<Rightarrow> (string \<rightharpoonup> rat)" where
  "extract_fields fa [] d = d"
| "extract_fields fa ((field, pats) # rest) d =
     extract_fields fa rest
       (case extract_field fa pats of None \<Rightarrow> d | Some v \<Rightarrow> d(field \<mapsto> v))"

definition income_patterns :: "(string \<times> regex list) list" where
  "income_patterns =
     [(''revenue'', [Amount ''Total revenue'', Amount ''Revenue'', Amount ''Net sales'', Sales_amount]),
      (''gross_profit'', [Amount ''Gross profit'', Amount ''Gross margin'']),
      (''operating_income'', [Amount ''Operating income'', Amount ''Income from operations'']),
      (''net_income'', [Amount ''Net income'', Amount ''Net earnings'', Amount ''Net loss'']),
      (''cost_of_revenue'',
         [Amount ''Cost of revenue'', Amount ''Cost of sales'', Amount ''Cost of goods sold'']),
      (''research_development'', [Amount ''Research and development'', Amount ''R&D'']),
      (''selling_general_admin'',
         [Amount ''Selling, general and administrative'', Amount ''SG&A''])]"

definition balance_patterns :: "(string \<times> regex list) list" where
  "balance_patterns =
     [(''total_assets'', [Amount ''Total assets'', Amount ''Total Assets'']),
      (''total_liabilities'', [Amount ''Total liabilities'', Amount ''Total Liabilities'']),
      (''cash'', [Amount ''Cash and cash equivalents'', Amount ''Cash'', Amount ''Cash and equivalents'']),
      (''accounts_receivable'', [Amount ''Accounts receivable'', Amount ''Receivables'']),
      (''inventory'', [Amount ''Inventory'', Amount ''Inventories'']),
      (''property_plant_equipment'', [Amount ''Property, plant and equipment'', Amount ''PP&E'']),
      (''total_debt'', [Amount ''Total debt'', Amount ''Debt'']),
      (''accounts_payable'', [Amount ''Accounts payable''])]"

definition cash_flow_patterns :: "(string \<times> regex list) list" where
  "cash_flow_patterns =
     [(''operating_cash_flow'',
         [Amount ''Net cash provided by operating activities'',
          Amount ''Cash from operating activities'', Amount ''Operating cash flow'']),
      (''investing_cash_flow'',
         [Amount ''Net cash used in investing activities'', Amount ''Cash from investing activities'']),
      (''financing_cash_flow'',
         [Amount ''Net cash used in financing activities'', Amount ''Cash from financing activities'']),
      (''capital_expenditures'',
         [Amount ''Capital expenditures'', Amount ''CAPEX'',
          Amount ''Purchase of property and equipment'']),
      (''free_cash_flow'', [Amount ''Free cash flow''])]"

definition extract_income_statement_generic :: "findall \<Rightarrow> (string \<rightharpoonup> rat)" where
  "extract_income_statement_generic fa =
     (let income_data = extract_fields fa income_patterns Map.empty
      in (case (income_data ''revenue'', income_data ''cost_of_revenue'') of
            (Some r, Some c) \<Rightarrow> income_data(''gross_profit_calculated'' \<mapsto> r - c)
          | _ \<Rightarrow> income_data))"

definition extract_balance_sheet_generic :: "findall \<Rightarrow> (string \<rightharpoonup> rat)" where
  "extract_balance_sheet_generic fa =
     (let balance_data = extract_fields fa balance_patterns Map.empty
      in (case (balance_data ''total_assets'', balance_data ''total_liabilities'') of
            (Some a, Some l) \<Rightarrow> balance_data(''total_equity'' \<mapsto> a - l)
          | _ \<Rightarrow> balance_data))"

definition extract_cash_flow_generic :: "findall \<Rightarrow> (string \<rightharpoonup> rat)" where
  "extract_cash_flow_generic fa =
     (let cash_flow_data = extract_fields fa cash_flow_patterns Map.empty
      in if cash_flow_data ''free_cash_flow'' = None then
           (case (cash_flow_data ''operating_cash_flow'', cash_flow_data ''capital_expenditures'') of
              (Some ocf, Some cx) \<Rightarrow> cash_flow_data(''free_cash_flow_calculated'' \<mapsto> ocf + cx)
            | _ \<Rightarrow> cash_flow_data)
         else cash_flow_data)"

text \<open>\<open>d.get(k, 0)\<close> and \<open>d.get(k, d.get(k', 0))\<close> on a dictionary of numbers.\<close>

definition get0 :: "(string \<rightharpoonup> rat) \<Rightarrow> string \<Rightarrow> rat" where
  "get0 d k = (case d k of None \<Rightarrow> 0 | Some v \<Rightarrow> v)"

definition get_or :: "(string \<rightharpoonup> rat) \<Rightarrow> string \<Rightarrow> rat \<Rightarrow> rat" where
  "get_or d k dflt = (case d k of None \<Rightarrow> dflt | Some v \<Rightarrow> v)"

record parsed =
  period :: "string \<rightharpoonup> string"
  complete_income_statement :: "string \<rightharpoonup> rat"
  complete_balance_sheet :: "string \<rightharpoonup> rat"
  complete_cash_flow :: "string \<rightharpoonup> rat"
  ticker :: string

record csv_data =
  csv_ticker :: string
  csv_year :: string
  csv_quarter :: string
  csv_sector :: string
  csv_revenue :: rat
  csv_gross_profit :: rat
  csv_ebitda :: rat
  csv_net_income :: rat
  csv_total_assets :: rat
  csv_total_liabilities :: rat
  csv_total_debt :: rat
  csv_capex :: rat
  csv_free_cash_flow :: rat
  csv_operating_cash_flow :: rat
  csv_cogs :: rat
  csv_sga_expense :: rat
  csv_rd_expense :: rat
  csv_operating_income :: rat

definition prepare_data_for_csv_generic :: "parsed \<Rightarrow> csv_data" where
  "prepare_data_for_csv_generic data =
     (let income_data = complete_income_statement data;
          balance_data = complete_balance_sheet data;
          cash_flow_data = complete_cash_flow data;
          revenue = get0 income_data ''revenue'';
          gross_profit =
            get_or income_data ''gross_profit'' (get0 income_data ''gross_profit_calculated'');
          net_income = get0 income_data ''net_income'';
          operating_income = get0 income_data ''operating_income'';
          total_assets = get0 balance_data ''total_assets'';
          total_liabilities = get0 balance_data ''total_liabilities'';
          total_debt = get0 balance_data ''total_debt'';
          operating_cash_flow = get0 cash_flow_data ''operating_cash_flow'';
          capital_expenditures = \<bar>get0 cash_flow_data ''capital_expenditures''\<bar>;
          free_cash_flow =
            get_or cash_flow_data ''free_cash_flow'' (get0 cash_flow_data ''free_cash_flow_calculated'');
          fiscal_year = (case period data ''fiscal_year'' of None \<Rightarrow> ''2024'' | Some s \<Rightarrow> s);
          fiscal_quarter = (case period data ''fiscal_quarter'' of None \<Rightarrow> ''Q1'' | Some s \<Rightarrow> s)
      in \<lparr>csv_ticker = ticker data, csv_year = fiscal_year, csv_quarter = fiscal_quarter,
          csv_sector = ''Technology'', csv_revenue = revenue, csv_gross_profit = gross_profit,
          csv_ebitda = operating_income, csv_net_income = net_income,
          csv_total_assets = total_assets, csv_total_liabilities = total_liabilities,
          csv_total_debt = total_debt, csv_capex = capital_expenditures,
          csv_free_cash_flow = free_cash_flow, csv_operating_cash_flow = operating_cash_flow,
          csv_cogs = get0 income_data ''cost_of_revenue'',
          csv_sga_expense = get0 income_data ''selling_general_admin'',
          csv_rd_expense = get0 income_data ''research_development'',
          csv_operating_income = operating_income\<rparr>)"

text \<open>
  The part of \<open>parse_financial_statement_generic\<close> between the period and the result:
  the three extractions and the record assembled from them.
\<close>

definition parse_financial_data :: "findall \<Rightarrow> (string \<rightharpoonup> string) \<Rightarrow> string \<Rightarrow> csv_data" where
  "parse_financial_data fa period_info tk =
     prepare_data_for_csv_generic
       \<lparr>period = period_info,
        complete_income_statement = extract_income_statement_generic fa,
        complete_balance_sheet = extract_balance_sheet_generic fa,
        complete_cash_flow = extract_cash_flow_generic fa,
        ticker = tk\<rparr>"

subsection \<open>Sample filing texts\<close>

text \<open>
  The text \<open>Total revenue 0\<close> followed by \<open>Revenue 500\<close>: the first pattern captures
  \<open>0\<close>, the second (case is ignored) captures \<open>0\<close> and \<open>500\<close>.
\<close>

definition zero_revenue_filing :: findall where
  "zero_revenue_filing r =
     (if r = Amount ''Total revenue'' then [''0'']
      else if r = Amount ''Revenue'' then [''0'', ''500'']
      else [])"

text \<open>
  The text \<open>Cost of revenue 1,500\<close>, \<open>Revenue 2,000\<close>, \<open>Gross profit 1,200\<close>:
  the pattern \<open>Revenue\<close> matches inside \<open>Cost of revenue\<close> first, then on its own.
\<close>

definition gross_profit_filing :: findall where
  "gross_profit_filing r =
     (if r = Amount ''Revenue'' then [''1,500'', ''2,000'']
      else if r = Amount ''Cost of revenue'' then [''1,500'']
      else if r = Amount ''Gross profit'' then [''1,200'']
      else [])"

text \<open>A filing text in which no pattern matches.\<close>

definition empty_filing :: findall where
  "empty_filing r = []"

section \<open>Financial ratios (Data_to_db.py, get_data.py)\<close>

text \<open>
  A Python float as the ratio code can meet it: a finite number (an exact rational, the
  two zeros taken as one), an infinity or NaN. \<open>json.loads\<close> reads the literals NaN and
  Infinity, and \<open>json.dumps\<close> writes them.
\<close>

datatype pyfloat = Fin rat | PosInf | NegInf | NaN

text \<open>A value that may be \<open>None\<close>: a NULL column or a JSON null.\<close>

type_synonym pyvalue = "pyfloat option"

text \<open>Truthiness: \<open>None\<close> and zero are falsy; NaN and the infinities are truthy.\<close>

definition truthy :: "pyvalue \<Rightarrow> bool" where
  "truthy v = (case v of None \<Rightarrow> False | Some x \<Rightarrow> x \<noteq> Fin 0)"

text \<open>Float division by a divisor that is not zero, and float subtraction.\<close>

fun float_div :: "pyfloat \<Rightarrow> pyfloat \<Rightarrow> pyfloat" where
  "float_div NaN y = NaN"
| "float_div x NaN = NaN"
| "float_div (Fin a) (Fin b) = Fin (a / b)"
| "float_div (Fin a) y = Fin 0"
| "float_div PosInf (Fin b) = (if b < 0 then NegInf else PosInf)"
| "float_div NegInf (Fin b) = (if b < 0 then PosInf else NegInf)"
| "float_div x y = NaN"

fun float_sub :: "pyfloat \<Rightarrow> pyfloat \<Rightarrow> pyfloat" where
  "float_sub NaN y = NaN"
| "float_sub x NaN = NaN"
| "float_sub (Fin a) (Fin b) = Fin (a - b)"
| "float_sub (Fin a) PosInf = NegInf"
| "float_sub (Fin a) NegInf = PosInf"
| "float_sub PosInf PosInf = NaN"
| "float_sub NegInf NegInf = NaN"
| "float_sub PosInf y = PosInf"
| "float_sub NegInf y = NegInf"

fun times_100 :: "pyfloat \<Rightarrow> pyfloat" where
  "times_100 (Fin a) = Fin (a * 100)"
| "times_100 x = x"

text \<open>
  The operators on values that may be \<open>None\<close>: an operand \<open>None\<close> raises TypeError, a
  zero divisor raises ZeroDivisionError.
\<close>

definition py_truediv :: "pyvalue \<Rightarrow> pyvalue \<Rightarrow> py_error + pyfloat" where
  "py_truediv a b =
     (case a of
        None \<Rightarrow> Inl TypeError
      | Some x \<Rightarrow>
          (case b of
             None \<Rightarrow> Inl TypeError
           | Some y \<Rightarrow> if y = Fin 0 then Inl ZeroDivisionError else Inr (float_div x y)))"

definition py_sub :: "pyvalue \<Rightarrow> pyvalue \<Rightarrow> py_error + pyfloat" where
  "py_sub a b =
     (case a of
        None \<Rightarrow> Inl TypeError
      | Some x \<Rightarrow> (case b of None \<Rightarrow> Inl TypeError | Some y \<Rightarrow> Inr (float_sub x y)))"

definition py_bind :: "py_error + 'a \<Rightarrow> ('a \<Rightarrow> py_error + 'b) \<Rightarrow> py_error + 'b" where
  "py_bind m f = (case m of Inl err \<Rightarrow> Inl err | Inr x \<Rightarrow> f x)"

text \<open>\<open>X if d else 0\<close>: \<open>X\<close> is evaluated only when \<open>d\<close> is truthy.\<close>

definition if_else_0 :: "pyvalue \<Rightarrow> (py_error + pyfloat) \<Rightarrow> py_error + pyvalue" where
  "if_else_0 d x = (if truthy d then py_bind x (\<lambda>v. Inr (Some v)) else Inr (Some (Fin 0)))"

text \<open>\<open>n / d if d else 0\<close> and \<open>(n / d * 100) if d else 0\<close>.\<close>

definition ratio :: "pyvalue \<Rightarrow> pyvalue \<Rightarrow> py_error + pyvalue" where
  "ratio n d = if_else_0 d (py_truediv n d)"

definition percent :: "pyvalue \<Rightarrow> pyvalue \<Rightarrow> py_error + pyvalue" where
  "percent n d = if_else_0 d (py_bind (py_truediv n d) (\<lambda>q. Inr (times_100 q)))"

text \<open>\<open>(a - b) / d if d else 0\<close>, the quick ratio.\<close>

definition ratio_of_difference :: "pyvalue \<Rightarrow> pyvalue \<Rightarrow> pyvalue \<Rightarrow> py_error + pyvalue" where
  "ratio_of_difference a b d =
     if_else_0 d (py_bind (py_sub a b) (\<lambda>n. py_truediv (Some n) d))"

text \<open>A difference stored as it is, and a value stored as it is.\<close>

definition difference :: "pyvalue \<Rightarrow> pyvalue \<Rightarrow> py_error + pyvalue" where
  "difference a b = py_bind (py_sub a b) (\<lambda>v. Inr (Some v))"

text \<open>The columns selected from \<open>financial_statements\<close>; each may be NULL.\<close>

record fin_row =
  total_assets :: pyvalue
  total_liabilities :: pyvalue
  total_debt :: pyvalue
  revenue :: pyvalue
  gross_profit :: pyvalue
  ebitda :: pyvalue
  net_income :: pyvalue
  operating_cash_flow :: pyvalue
  free_cash_flow :: pyvalue

text \<open>
  The balance sheet stored as JSON: a dictionary from account names to numbers or null.
  \<open>jget d k dflt\<close> is \<open>d.get(k, dflt)\<close>: the default is used for a missing key only, a
  key that holds null gives \<open>None\<close>.
\<close>

type_synonym json_dict = "string \<rightharpoonup> pyvalue"

definition jget :: "json_dict \<Rightarrow> string \<Rightarrow> pyvalue \<Rightarrow> pyvalue" where
  "jget d k dflt = (case d k of None \<Rightarrow> dflt | Some v \<Rightarrow> v)"

definition zero :: pyvalue where
  "zero = Some (Fin 0)"

text \<open>The local variables of \<open>calculate_financial_ratios\<close> (Data_to_db.py, lines 581 to 586).\<close>

definition db_current_assets :: "json_dict \<Rightarrow> pyvalue" where
  "db_current_assets bd = jget bd ''CurrentAssets'' (jget bd ''TotalCurrentAssets'' zero)"

definition db_current_liabilities :: "json_dict \<Rightarrow> pyvalue" where
  "db_current_liabilities bd =
     jget bd ''CurrentLiabilities'' (jget bd ''TotalCurrentLiabilities'' zero)"

definition db_cash :: "json_dict \<Rightarrow> pyvalue" where
  "db_cash bd = jget bd ''CashAndCashEquivalents'' zero"

definition db_inventory :: "json_dict \<Rightarrow> pyvalue" where
  "db_inventory bd = jget bd ''Inventory'' zero"

definition db_receivables :: "json_dict \<Rightarrow> pyvalue" where
  "db_receivables bd = jget bd ''AccountsReceivable'' (jget bd ''AccountsReceivableNet'' zero)"

definition db_total_equity :: "json_dict \<Rightarrow> pyvalue" where
  "db_total_equity bd = jget bd ''TotalEquity'' (jget bd ''StockholdersEquity'' zero)"

text \<open>
  The dictionary literal of \<open>calculate_financial_ratios\<close> (lines 589 to 623), entry by
  entry in the order Python evaluates it, without the identifying keys.
\<close>

definition ratio_entries_db :: "fin_row \<Rightarrow> json_dict \<Rightarrow> (string \<times> (py_error + pyvalue)) list" where
  "ratio_entries_db r bd =
     [(''current_ratio'', ratio (db_current_assets bd) (db_current_liabilities bd)),
      (''quick_ratio'',
         ratio_of_difference (db_current_assets bd) (db_inventory bd) (db_current_liabilities bd)),
      (''cash_ratio'', ratio (db_cash bd) (db_current_liabilities bd)),
      (''debt_to_equity'', ratio (total_debt r) (db_total_equity bd)),
      (''debt_to_assets'', ratio (total_debt r) (total_assets r)),
      (''equity_multiplier'', ratio (total_assets r) (db_total_equity bd)),
      (''roe'', ratio (net_income r) (db_total_equity bd)),
      (''roa'', ratio (net_income r) (total_assets r)),
      (''return_on_tangible_equity'', ratio (net_income r) (db_total_equity bd)),
      (''gross_margin'', percent (gross_profit r) (revenue r)),
      (''operating_margin'', percent (net_income r) (revenue r)),
      (''net_margin'', percent (net_income r) (revenue r)),
      (''asset_turnover'', ratio (revenue r) (total_assets r)),
      (''inventory_turnover'', ratio (revenue r) (db_inventory bd)),
      (''receivables_turnover'', ratio (revenue r) (db_receivables bd)),
      (''operating_cash_flow_ratio'', ratio (operating_cash_flow r) (db_current_liabilities bd)),
      (''free_cash_flow_margin'', percent (free_cash_flow r) (revenue r)),
      (''working_capital'', difference (db_current_assets bd) (db_current_liabilities bd)),
      (''net_debt'', difference (total_debt r) (db_cash bd))]"

text \<open>The local variables of \<open>calculate_and_save_ratios\<close> (get_data.py, lines 979 to 989).\<close>

definition yr_current_assets :: "json_dict \<Rightarrow> pyvalue" where
  "yr_current_assets bd = jget bd ''Current Assets'' zero"

definition yr_current_liabilities :: "json_dict \<Rightarrow> pyvalue" where
  "yr_current_liabilities bd = jget bd ''Current Liabilities'' zero"

definition yr_cash :: "json_dict \<Rightarrow> pyvalue" where
  "yr_cash bd = jget bd ''Cash And Cash Equivalents'' zero"

definition yr_inventory :: "json_dict \<Rightarrow> pyvalue" where
  "yr_inventory bd = jget bd ''Inventory'' zero"

definition yr_receivables :: "json_dict \<Rightarrow> pyvalue" where
  "yr_receivables bd = jget bd ''Receivables'' zero"

definition yr_total_assets :: "json_dict \<Rightarrow> pyvalue" where
  "yr_total_assets bd = jget bd ''Total Assets'' zero"

definition yr_total_equity :: "json_dict \<Rightarrow> pyvalue" where
  "yr_total_equity bd = jget bd ''Total Equity Gross Minority Interest'' zero"

definition yr_tangible_book_value :: "json_dict \<Rightarrow> pyvalue" where
  "yr_tangible_book_value bd = jget bd ''Tangible Book Value'' (yr_total_equity bd)"

definition yr_total_debt :: "json_dict \<Rightarrow> pyvalue" where
  "yr_total_debt bd = jget bd ''Total Debt'' zero"

definition yr_working_capital :: "json_dict \<Rightarrow> pyvalue" where
  "yr_working_capital bd = jget bd ''Working Capital'' zero"

definition yr_net_debt :: "json_dict \<Rightarrow> pyvalue" where
  "yr_net_debt bd = jget bd ''Net Debt'' zero"

text \<open>The dictionary literal of \<open>calculate_and_save_ratios\<close> (lines 992 to 1025).\<close>

definition ratio_entries_yearly :: "fin_row \<Rightarrow> json_dict \<Rightarrow> (string \<times> (py_error + pyvalue)) list" where
  "ratio_entries_yearly r bd =
     [(''current_ratio'', ratio (yr_current_assets bd) (yr_current_liabilities bd)),
      (''quick_ratio'',
         ratio_of_difference (yr_current_assets bd) (yr_inventory bd) (yr_current_liabilities bd)),
      (''cash_ratio'', ratio (yr_cash bd) (yr_current_liabilities bd)),
      (''debt_to_equity'', ratio (yr_total_debt bd) (yr_total_equity bd)),
      (''debt_to_assets'', ratio (yr_total_debt bd) (yr_total_assets bd)),
      (''equity_multiplier'', ratio (yr_total_assets bd) (yr_total_equity bd)),
      (''roe'', ratio (net_income r) (yr_total_equity bd)),
      (''roa'', ratio (net_income r) (yr_total_assets bd)),
      (''return_on_tangible_equity'', ratio (net_income r) (yr_tangible_book_value bd)),
      (''gross_margin'', percent (gross_profit r) (revenue r)),
      (''operating_margin'', percent (ebitda r) (revenue r)),
      (''net_margin'', percent (net_income r) (revenue r)),
      (''asset_turnover'', ratio (revenue r) (yr_total_assets bd)),
      (''inventory_turnover'', ratio (revenue r) (yr_inventory bd)),
      (''receivables_turnover'', ratio (revenue r) (yr_receivables bd)),
      (''operating_cash_flow_ratio'', ratio (operating_cash_flow r) (yr_current_liabilities bd)),
      (''free_cash_flow_margin'', percent (free_cash_flow r) (revenue r)),
      (''working_capital'', Inr (yr_working_capital bd)),
      (''net_debt'', Inr (yr_net_debt bd))]"

text \<open>
  Evaluating a dictionary literal: the first entry that raises ends the evaluation with
  its exception.
\<close>

fun collect :: "(string \<times> (py_error + pyvalue)) list \<Rightarrow> py_error + (string \<times> pyvalue) list" where
  "collect [] = Inr []"
| "collect ((k, v) # rest) =
     (case v of
        Inl err \<Rightarrow> Inl err
      | Inr x \<Rightarrow> (case collect rest of Inl err \<Rightarrow> Inl err | Inr kvs \<Rightarrow> Inr ((k, x) # kvs)))"

definition calculate_financial_ratios :: "fin_row \<Rightarrow> json_dict \<Rightarrow> py_error + (string \<times> pyvalue) list" where
  "calculate_financial_ratios r bd = collect (ratio_entries_db r bd)"

definition calculate_and_save_ratios :: "fin_row \<Rightarrow> json_dict \<Rightarrow> py_error + (string \<times> pyvalue) list" where
  "calculate_and_save_ratios r bd = collect (ratio_entries_yearly r bd)"

text \<open>
  The quotient the specification gives for a ratio of two numbers:
  numerator / denominator if the denominator is not zero, else 0.
\<close>

definition quotient_or_0 :: "rat \<Rightarrow> rat \<Rightarrow> rat" where
  "quotient_or_0 n d = (if d = 0 then 0 else n / d)"

text \<open>
  A row and a balance sheet of finite numbers, with current liabilities of 0 and no
  inventory account; and the same balance sheet with NaN as current liabilities.
\<close>

definition sample_row :: fin_row where
  "sample_row =
     \<lparr>total_assets = Some (Fin 1000), total_liabilities = Some (Fin 400),
      total_debt = Some (Fin 200), revenue = Some (Fin 800), gross_profit = Some (Fin 400),
      ebitda = Some (Fin 300), net_income = Some (Fin 100),
      operating_cash_flow = Some (Fin 150), free_cash_flow = Some (Fin 80)\<rparr>"

definition sample_balance :: json_dict where
  "sample_balance =
     [''CurrentAssets'' \<mapsto> Some (Fin 500), ''CurrentLiabilities'' \<mapsto> Some (Fin 0),
      ''CashAndCashEquivalents'' \<mapsto> Some (Fin 100), ''AccountsReceivable'' \<mapsto> Some (Fin 50),
      ''TotalEquity'' \<mapsto> Some (Fin 600)]"

definition nan_balance :: json_dict where
  "nan_balance = sample_balance(''CurrentLiabilities'' \<mapsto> Some NaN)"

section \<open>Properties of the quarterly reconciliation\<close>

lemma format_value_id: "format_value v = v"
  by (cases v) (simp_all add: format_value_def)

lemma quarters_loop_rows:
  "shown + length qs \<le> NUM_QUARTERS \<Longrightarrow>
   quarters_loop y yd qs (rows, shown) =
     (rows @ concat (map (qrow y yd) qs), shown + length (concat (map (qrow y yd) qs)))"
proof (induction qs arbitrary: rows shown)
  case Nil
  then show ?case by simp
next
  case (Cons q qs)
  then have lt: "\<not> NUM_QUARTERS \<le> shown" by simp
  show ?case
  proof (cases "map_of yd q")
    case None
    with Cons lt show ?thesis by (simp add: qrow_def)
  next
    case (Some d)
    from Cons.prems have "Suc shown + length qs \<le> NUM_QUARTERS" by simp
    from Cons.IH[OF this] Some lt show ?thesis by (simp add: qrow_def)
  qed
qed

lemma quarterly_values_append: "quarterly_values (xs @ ys) q = quarterly_values xs q @ quarterly_values ys q"
  by (simp add: quarterly_values_def)

lemma quarterly_values_qrow:
  "quarterly_values (qrow y yd q') q = (if q' = q then (case map_of yd q of None \<Rightarrow> [] | Some d \<Rightarrow> [quarterly_value yd q d]) else [])"
  by (simp add: quarterly_values_def qrow_def is_quarterly_row_def mk_row_def format_value_id split: option.split)

lemma quarterly_values_quarters:
  "q \<in> set quarters \<Longrightarrow> map_of yd q = Some d \<Longrightarrow>
   quarterly_values (concat (map (qrow y yd) quarters)) q = [quarterly_value yd q d]"
  by (auto simp add: quarters_def quarterly_values_append quarterly_values_qrow)

lemma process_year_quarterly:
  "quarterly_values (fst (process_year y yd ([], 0, False))) q =
   quarterly_values (concat (map (qrow y yd) quarters)) q"
proof -
  have le: "0 + length quarters \<le> NUM_QUARTERS" by (simp add: quarters_def NUM_QUARTERS_def)
  have other: "vt \<noteq> ''Quarterly'' \<Longrightarrow> quarterly_values (mk_row y p d vt v # rs) q = quarterly_values rs q" for p d v vt rs
    by (simp add: quarterly_values_def is_quarterly_row_def mk_row_def)
  have nil: "quarterly_values [] q = []"
    by (simp add: quarterly_values_def)
  show ?thesis
    unfolding process_year_def
    by (simp add: quarters_loop_rows[OF le] Let_def
        quarterly_values_append other nil split: option.split prod.split)
qed


lemma years_loop_single:
  "years_loop [(y, yd)] (sorted_years [(y, yd)]) ([], 0, False) = fst (process_year y yd ([], 0, False))"
  by (simp add: sorted_years_def sort_reverse_def NUM_QUARTERS_def)

lemma quarterly_values_single_year:
  assumes "q \<in> set quarters" and "map_of yd q = Some d"
  shows "quarterly_values (years_loop [(y, yd)] (sorted_years [(y, yd)]) ([], 0, False)) q
         = [quarterly_value yd q d]"
  using assms
  by (simp add: years_loop_single process_year_quarterly quarterly_values_quarters)

lemma lookup_update:
  "lookup_period (AList.update y yd fys) y' p' = (if y' = y then map_of yd p' else lookup_period fys y' p')"
  by (simp add: lookup_period_def update_conv')

lemma add_item_lookup:
  assumes f: "i_filed x = Some f"
    and inv: "\<forall>y p e. lookup_period fys y p = Some e \<longrightarrow> e_filed e \<noteq> None"
  shows "\<exists>fys'. add_item x fys = Inr fys' \<and>
           (\<forall>y p. lookup_period fys' y p =
              (if is_candidate y p x then
                 (case lookup_period fys y p of
                    None \<Rightarrow> Some (entry_of x p)
                  | Some old \<Rightarrow> if get_str (e_filed old) < f then Some (entry_of x p) else Some old)
               else lookup_period fys y p))"
proof (cases "i_fy x")
  case None
  then show ?thesis by (simp add: add_item_def is_candidate_def)
next
  case (Some y0)
  show ?thesis
  proof (cases "y0 = 0 \<or> \<not> truthy_str (i_end x)")
    case True
    with Some show ?thesis by (auto simp add: add_item_def is_candidate_def)
  next
    case False
    define p0 where "p0 = period_key x"
    define fys1 where "fys1 = (if map_of fys y0 = None then AList.update y0 [] fys else fys)"
    define yd where "yd = (case map_of fys1 y0 of None \<Rightarrow> [] | Some d \<Rightarrow> d)"
    have l1: "lookup_period fys1 y p = lookup_period fys y p" for y p
      by (simp add: fys1_def lookup_update) (simp add: lookup_period_def)
    have yd: "map_of yd p = lookup_period fys y0 p" for p
      using l1[of y0 p] by (auto simp add: yd_def lookup_period_def split: option.splits)
    have cand: "is_candidate y p x \<longleftrightarrow> y = y0 \<and> p = p0" for y p
      using Some False by (auto simp add: is_candidate_def p0_def)
    have step: "add_item x fys =
      (case map_of yd p0 of
         None \<Rightarrow> Inr (AList.update y0 (AList.update p0 (entry_of x p0) yd) fys1)
       | Some old \<Rightarrow>
         (case py_gt (i_filed x) (e_filed old) of
            Inl err \<Rightarrow> Inl err
          | Inr True \<Rightarrow> Inr (AList.update y0 (AList.update p0 (entry_of x p0) yd) fys1)
          | Inr False \<Rightarrow> Inr fys1))"
      unfolding add_item_def Let_def p0_def period_key_def fys1_def yd_def using Some False by simp
    show ?thesis
    proof (cases "lookup_period fys y0 p0")
      case None
      then show ?thesis
        by (simp add: step yd lookup_update update_conv' cand l1)
    next
      case (Some old)
      with inv obtain g where g: "e_filed old = Some g" by blast
      from Some g show ?thesis
        by (cases "g < f") (simp_all add: step yd lookup_update update_conv' cand l1 py_gt_def f get_str_def)
    qed
  qed
qed


lemma candidates_snoc:
  "candidates (xs @ [x]) y p = candidates xs y p @ (if is_candidate y p x then [x] else [])"
  by (simp add: candidates_def)

lemma first_latest_step:
  assumes "first_latest p cs r" and "i_filed x = Some f"
  shows "first_latest p (cs @ [x])
           (case r of None \<Rightarrow> Some (entry_of x p)
            | Some old \<Rightarrow> if get_str (e_filed old) < f then Some (entry_of x p) else Some old)"
proof (cases r)
  case None
  with assms show ?thesis
    by (auto simp add: first_latest_def intro!: exI[of _ "[]"])
next
  case (Some old)
  with assms obtain pre c post where cs: "cs = pre @ c # post" and e: "old = entry_of c p"
    and pre: "\<forall>x\<in>set pre. filed_of x < filed_of c"
    and post: "\<forall>x\<in>set post. filed_of x \<le> filed_of c"
    by (auto simp add: first_latest_def)
  have fo: "get_str (e_filed old) = filed_of c" by (simp add: e entry_of_def filed_of_def)
  have fx: "filed_of x = f" using assms(2) by (simp add: filed_of_def get_str_def)
  show ?thesis
  proof (cases "filed_of c < f")
    case True
    have lt: "\<forall>z\<in>set cs. filed_of z < filed_of x"
      using True pre post cs fx by (auto intro: less_trans le_less_trans)
    have "\<exists>pre' c' post'. cs @ [x] = pre' @ c' # post' \<and> entry_of x p = entry_of c' p
             \<and> (\<forall>z\<in>set pre'. filed_of z < filed_of c')
             \<and> (\<forall>z\<in>set post'. filed_of z \<le> filed_of c')"
      by (rule exI[of _ cs], rule exI[of _ x], rule exI[of _ "[]"]) (use lt in simp)
    then show ?thesis using Some True fo
      by (simp add: first_latest_def)
  next
    case False
    have le: "\<forall>z\<in>set (post @ [x]). filed_of z \<le> filed_of c"
      using False post fx by auto
    have "\<exists>pre' c' post'. cs @ [x] = pre' @ c' # post' \<and> old = entry_of c' p
             \<and> (\<forall>z\<in>set pre'. filed_of z < filed_of c')
             \<and> (\<forall>z\<in>set post'. filed_of z \<le> filed_of c')"
      by (rule exI[of _ pre], rule exI[of _ c], rule exI[of _ "post @ [x]"])
         (use le pre e cs in simp)
    then show ?thesis using Some False fo
      by (simp add: first_latest_def)
  qed
qed


lemma build_append:
  "build_fiscal_years (xs @ ys) fys =
     (case build_fiscal_years xs fys of Inl err \<Rightarrow> Inl err | Inr f \<Rightarrow> build_fiscal_years ys f)"
  by (induction xs arbitrary: fys) (simp_all split: sum.split)

lemma build_invariant:
  assumes "\<forall>x\<in>set xs. i_filed x \<noteq> None"
  shows "\<exists>fys. build_fiscal_years xs [] = Inr fys
           \<and> (\<forall>y p. first_latest p (candidates xs y p) (lookup_period fys y p))
           \<and> (\<forall>y p e. lookup_period fys y p = Some e \<longrightarrow> e_filed e \<noteq> None)"
  using assms
proof (induction xs rule: rev_induct)
  case Nil
  show ?case by (simp add: lookup_period_def first_latest_def candidates_def)
next
  case (snoc x xs)
  then obtain fys where b: "build_fiscal_years xs [] = Inr fys"
    and fl: "\<forall>y p. first_latest p (candidates xs y p) (lookup_period fys y p)"
    and inv: "\<forall>y p e. lookup_period fys y p = Some e \<longrightarrow> e_filed e \<noteq> None"
    by auto
  from snoc.prems obtain f where f: "i_filed x = Some f" by auto
  from add_item_lookup[OF f inv] obtain fys' where a: "add_item x fys = Inr fys'"
    and l: "\<forall>y p. lookup_period fys' y p =
              (if is_candidate y p x then
                 (case lookup_period fys y p of
                    None \<Rightarrow> Some (entry_of x p)
                  | Some old \<Rightarrow> if get_str (e_filed old) < f then Some (entry_of x p) else Some old)
               else lookup_period fys y p)"
    by blast
  have 1: "build_fiscal_years (xs @ [x]) [] = Inr fys'"
    by (simp add: build_append b a)
  have 2: "first_latest p (candidates (xs @ [x]) y p) (lookup_period fys' y p)" for y p
  proof (cases "is_candidate y p x")
    case True
    from fl have "first_latest p (candidates xs y p) (lookup_period fys y p)" by blast
    from first_latest_step[OF this f] True show ?thesis
      by (simp add: candidates_snoc l)
  next
    case False
    with fl show ?thesis by (simp add: candidates_snoc l)
  qed
  have 3: "e_filed e \<noteq> None" if "lookup_period fys' y p = Some e" for y p e
    using that inv f l[rule_format, of y p]
    by (auto simp add: entry_of_def split: if_splits option.splits)
  from 1 2 3 show ?case by blast
qed

lemma filter_key_inj:
  assumes "inj_on f (set zs)" and "k \<in> set zs"
  shows "filter (\<lambda>x. f k = f x) zs = replicate (count (mset zs) k) k"
proof -
  have "filter (\<lambda>x. f k = f x) zs = filter ((=) k) zs"
    using assms by (intro filter_cong) (auto dest: inj_onD)
  then show ?thesis by (simp add: replicate_count_mset_eq_filter_eq)
qed

lemma sort_reverse_perm:
  assumes m: "mset xs = mset ys" and inj: "inj_on f (set xs)"
  shows "sort_reverse f xs = sort_reverse f ys"
proof -
  have s: "set xs = set ys" using m by (rule mset_eq_setD)
  have "sort_key f (rev xs) = sort_key f (rev ys)"
  proof (rule properties_for_sort_key)
    show "mset (sort_key f (rev ys)) = mset (rev xs)" using m by simp
    show "sorted (map f (sort_key f (rev ys)))" by simp
  next
    fix k assume "k \<in> set (sort_key f (rev ys))"
    then have k: "k \<in> set xs" using s by simp
    have "filter (\<lambda>x. f k = f x) (sort_key f (rev ys)) = filter (\<lambda>x. f k = f x) (rev ys)"
      using sort_key_stable[of f "f k" "rev ys"] by (simp add: eq_commute)
    also have "\<dots> = replicate (count (mset (rev ys)) k) k"
      using inj k s by (intro filter_key_inj) simp_all
    also have "\<dots> = replicate (count (mset (rev xs)) k) k" using m by simp
    also have "\<dots> = filter (\<lambda>x. f k = f x) (rev xs)"
      using inj k by (intro filter_key_inj[symmetric]) simp_all
    finally show "filter (\<lambda>x. f k = f x) (sort_key f (rev ys)) = filter (\<lambda>x. f k = f x) (rev xs)" .
  qed
  then show ?thesis by (simp add: sort_reverse_def)
qed

lemma process_metric_perm:
  assumes "mset md = mset md'" and "inj_on item_key (set (filter is_quarterly_or_annual md))"
  shows "process_metric (Some md) = process_metric (Some md')"
proof -
  have "mset (filter is_quarterly_or_annual md) = mset (filter is_quarterly_or_annual md')"
    using assms(1) by (metis mset_filter)
  from sort_reverse_perm[OF this assms(2)] show ?thesis
    by (simp add: process_metric_def extract_quarterly_data_def)
qed

subsection \<open>Quarterly values from year-to-date values\<close>

text \<open>
  C1. For the facts of one fiscal year, once duplicates are resolved into \<open>yd\<close>: the one
  Quarterly value stored for a quarter \<open>q\<close> that has a fact is \<open>quarterly_value yd q\<close>.
  For Q1 it is the quarter's own year-to-date value. For a later quarter whose
  predecessor has a fact it is the difference of the two year-to-date values when both
  are non-zero, and the quarter's own value otherwise (the subtraction is guarded by the
  truth value of both operands). The facts Q1 = 100, Q2 = 250, Q3 = 400, Q4 = 500 and the
  annual fact 500 give the Quarterly values 100, 150, 150 and 100.
\<close>

theorem quarterly_decomposition:
  "(q \<in> set quarters \<and> map_of yd q = Some d \<longrightarrow>
      quarterly_values (years_loop [(y, yd)] (sorted_years [(y, yd)]) ([], 0, False)) q
        = [quarterly_value yd q d]
      \<and> (q = ''Q1'' \<longrightarrow> quarterly_value yd q d = e_value d)
      \<and> (\<forall>p pd a b. prev_q q = Some p \<and> map_of yd p = Some pd
             \<and> e_value d = Some a \<and> e_value pd = Some b \<longrightarrow>
            quarterly_value yd q d = (if a \<noteq> 0 \<and> b \<noteq> 0 then Some (a - b) else Some a)))
   \<and> process_metric (Some [fact ''Q1'' ''2023-03-31'' ''2023-04-20'' 100,
                           fact ''Q2'' ''2023-06-30'' ''2023-07-20'' 250,
                           fact ''Q3'' ''2023-09-30'' ''2023-10-20'' 400,
                           fact ''Q4'' ''2023-12-31'' ''2024-01-25'' 500,
                           fact ''FY'' ''2023-12-31'' ''2024-01-25'' 500])
      = Inr [\<lparr>r_fy = 2023, r_fp = ''Q4'', r_end_date = Some ''2023-12-31'',
               r_filed = Some ''2024-01-25'', r_value_type = ''YTD'', r_value = Some 500\<rparr>,
             \<lparr>r_fy = 2023, r_fp = ''Q4'', r_end_date = Some ''2023-12-31'',
               r_filed = Some ''2024-01-25'', r_value_type = ''Quarterly'', r_value = Some 100\<rparr>,
             \<lparr>r_fy = 2023, r_fp = ''Q3'', r_end_date = Some ''2023-09-30'',
               r_filed = Some ''2023-10-20'', r_value_type = ''Quarterly'', r_value = Some 150\<rparr>,
             \<lparr>r_fy = 2023, r_fp = ''Q2'', r_end_date = Some ''2023-06-30'',
               r_filed = Some ''2023-07-20'', r_value_type = ''Quarterly'', r_value = Some 150\<rparr>,
             \<lparr>r_fy = 2023, r_fp = ''Q1'', r_end_date = Some ''2023-03-31'',
               r_filed = Some ''2023-04-20'', r_value_type = ''Quarterly'', r_value = Some 100\<rparr>,
             \<lparr>r_fy = 2023, r_fp = ''FY'', r_end_date = Some ''2023-12-31'',
               r_filed = Some ''2024-01-25'', r_value_type = ''Full Year'', r_value = Some 500\<rparr>]"
proof -
  have a: "q \<in> set quarters \<and> map_of yd q = Some d \<longrightarrow>
      quarterly_values (years_loop [(y, yd)] (sorted_years [(y, yd)]) ([], 0, False)) q
        = [quarterly_value yd q d]"
    by (simp add: quarterly_values_single_year)
  have b: "q = ''Q1'' \<longrightarrow> quarterly_value yd q d = e_value d"
    by (simp add: quarterly_value_def prev_q_def)
  have c: "\<forall>p pd a b. prev_q q = Some p \<and> map_of yd p = Some pd
             \<and> e_value d = Some a \<and> e_value pd = Some b \<longrightarrow>
            quarterly_value yd q d = (if a \<noteq> 0 \<and> b \<noteq> 0 then Some (a - b) else Some a)"
    by (auto simp add: quarterly_value_def truthy_num_def)
  have d: "process_metric (Some [fact ''Q1'' ''2023-03-31'' ''2023-04-20'' 100,
                           fact ''Q2'' ''2023-06-30'' ''2023-07-20'' 250,
                           fact ''Q3'' ''2023-09-30'' ''2023-10-20'' 400,
                           fact ''Q4'' ''2023-12-31'' ''2024-01-25'' 500,
                           fact ''FY'' ''2023-12-31'' ''2024-01-25'' 500])
      = Inr [\<lparr>r_fy = 2023, r_fp = ''Q4'', r_end_date = Some ''2023-12-31'',
               r_filed = Some ''2024-01-25'', r_value_type = ''YTD'', r_value = Some 500\<rparr>,
             \<lparr>r_fy = 2023, r_fp = ''Q4'', r_end_date = Some ''2023-12-31'',
               r_filed = Some ''2024-01-25'', r_value_type = ''Quarterly'', r_value = Some 100\<rparr>,
             \<lparr>r_fy = 2023, r_fp = ''Q3'', r_end_date = Some ''2023-09-30'',
               r_filed = Some ''2023-10-20'', r_value_type = ''Quarterly'', r_value = Some 150\<rparr>,
             \<lparr>r_fy = 2023, r_fp = ''Q2'', r_end_date = Some ''2023-06-30'',
               r_filed = Some ''2023-07-20'', r_value_type = ''Quarterly'', r_value = Some 150\<rparr>,
             \<lparr>r_fy = 2023, r_fp = ''Q1'', r_end_date = Some ''2023-03-31'',
               r_filed = Some ''2023-04-20'', r_value_type = ''Quarterly'', r_value = Some 100\<rparr>,
             \<lparr>r_fy = 2023, r_fp = ''FY'', r_end_date = Some ''2023-12-31'',
               r_filed = Some ''2024-01-25'', r_value_type = ''Full Year'', r_value = Some 500\<rparr>]"
    by code_simp
  from a b c d show ?thesis by blast
qed

text \<open>The theorem at the year that holds Q1 = 100 and Q2 = 250.\<close>

theorem quarterly_decomposition_witness:
  "''Q2'' \<in> set quarters
   \<and> map_of [(''Q1'', entry_of (fact ''Q1'' ''2023-03-31'' ''2023-04-20'' 100) ''Q1''),
             (''Q2'', entry_of (fact ''Q2'' ''2023-06-30'' ''2023-07-20'' 250) ''Q2'')] ''Q2''
       = Some (entry_of (fact ''Q2'' ''2023-06-30'' ''2023-07-20'' 250) ''Q2'')
   \<and> prev_q ''Q2'' = Some ''Q1''
   \<and> quarterly_values
        (years_loop
           [(2023, [(''Q1'', entry_of (fact ''Q1'' ''2023-03-31'' ''2023-04-20'' 100) ''Q1''),
                    (''Q2'', entry_of (fact ''Q2'' ''2023-06-30'' ''2023-07-20'' 250) ''Q2'')])]
           (sorted_years
              [(2023, [(''Q1'', entry_of (fact ''Q1'' ''2023-03-31'' ''2023-04-20'' 100) ''Q1''),
                       (''Q2'', entry_of (fact ''Q2'' ''2023-06-30'' ''2023-07-20'' 250) ''Q2'')])])
           ([], 0, False)) ''Q2''
       = [Some 150]"
proof -
  let ?e1 = "entry_of (fact ''Q1'' ''2023-03-31'' ''2023-04-20'' 100) ''Q1''"
  let ?e2 = "entry_of (fact ''Q2'' ''2023-06-30'' ''2023-07-20'' 250) ''Q2''"
  let ?yd = "[(''Q1'', ?e1), (''Q2'', ?e2)]"
  have h1: "''Q2'' \<in> set quarters" by (simp add: quarters_def)
  have h2: "map_of ?yd ''Q2'' = Some ?e2" by simp
  have h3: "prev_q ''Q2'' = Some ''Q1''" by (simp add: prev_q_def)
  have h4: "map_of ?yd ''Q1'' = Some ?e1" by simp
  have h5: "e_value ?e2 = Some 250" "e_value ?e1 = Some 100" by (simp_all add: entry_of_def fact_def)
  from quarterly_decomposition[of "''Q2''" ?yd ?e2 2023] h1 h2
  have v: "quarterly_values (years_loop [(2023, ?yd)] (sorted_years [(2023, ?yd)]) ([], 0, False)) ''Q2''
        = [quarterly_value ?yd ''Q2'' ?e2]"
    and w: "\<forall>p pd a b. prev_q ''Q2'' = Some p \<and> map_of ?yd p = Some pd
             \<and> e_value ?e2 = Some a \<and> e_value pd = Some b \<longrightarrow>
            quarterly_value ?yd ''Q2'' ?e2 = (if a \<noteq> 0 \<and> b \<noteq> 0 then Some (a - b) else Some a)"
    by blast+
  from w h3 h4 h5 have "quarterly_value ?yd ''Q2'' ?e2 = (if (250::rat) \<noteq> 0 \<and> (100::rat) \<noteq> 0 then Some (250 - 100) else Some 250)"
    by blast
  then have "quarterly_value ?yd ''Q2'' ?e2 = Some 150" by simp
  with v h1 h2 h3 show ?thesis by simp
qed

text \<open>
  With Q1 = 100 and a year-to-date value of 0 at Q2, the Quarterly value of Q2 is 0, not
  0 - 100.
\<close>

theorem zero_ytd_counterexample:
  "process_metric (Some [fact ''Q1'' ''2023-03-31'' ''2023-04-20'' 100,
                         fact ''Q2'' ''2023-06-30'' ''2023-07-20'' 0])
     = Inr [\<lparr>r_fy = 2023, r_fp = ''Q2'', r_end_date = Some ''2023-06-30'',
              r_filed = Some ''2023-07-20'', r_value_type = ''YTD'', r_value = Some 0\<rparr>,
            \<lparr>r_fy = 2023, r_fp = ''Q2'', r_end_date = Some ''2023-06-30'',
              r_filed = Some ''2023-07-20'', r_value_type = ''Quarterly'', r_value = Some 0\<rparr>,
            \<lparr>r_fy = 2023, r_fp = ''Q1'', r_end_date = Some ''2023-03-31'',
              r_filed = Some ''2023-04-20'', r_value_type = ''Quarterly'', r_value = Some 100\<rparr>]
   \<and> Some (0::rat) \<noteq> Some (0 - 100)"
  by code_simp

lemma set_sort_reverse: "set (sort_reverse f xs) = set xs"
  by (simp add: sort_reverse_def)

lemma process_metric_total:
  assumes "\<forall>x\<in>set md. i_filed x \<noteq> None"
  shows "\<exists>rows. process_metric (Some md) = Inr rows"
proof -
  let ?xs = "sort_reverse item_key (filter is_quarterly_or_annual md)"
  have "\<forall>x\<in>set ?xs. i_filed x \<noteq> None"
    using assms by (simp add: set_sort_reverse)
  from build_invariant[OF this] obtain fys where "build_fiscal_years ?xs [] = Inr fys"
    by blast
  then show ?thesis
    by (simp add: process_metric_def extract_quarterly_data_def)
qed

lemma quarters_loop_new_rows:
  "r \<in> set (fst (quarters_loop y yd qs (rows, n))) \<Longrightarrow>
   r \<in> set rows \<or>
   (\<exists>q d. map_of yd q = Some d \<and> r = mk_row y q d ''Quarterly'' (quarterly_value yd q d))"
proof (induction qs arbitrary: rows n)
  case Nil
  then show ?case by simp
next
  case (Cons q qs)
  show ?case
  proof (cases "NUM_QUARTERS \<le> n")
    case True
    with Cons.prems show ?thesis by simp
  next
    case False
    show ?thesis
    proof (cases "map_of yd q")
      case None
      with Cons False show ?thesis by simp
    next
      case (Some d)
      with Cons.prems False
      have "r \<in> set (fst (quarters_loop y yd qs
              (rows @ [mk_row y q d ''Quarterly'' (quarterly_value yd q d)], n + 1)))"
        by simp
      from Cons.IH[OF this] Some show ?thesis by auto
    qed
  qed
qed

lemma process_year_new_rows:
  assumes "r \<in> set (fst (process_year y yd (rows, n, b)))" and "r_value_type r = ''Quarterly''"
  shows "r \<in> set rows \<or>
   (\<exists>q d. map_of yd q = Some d \<and> r = mk_row y q d ''Quarterly'' (quarterly_value yd q d))"
proof -
  define rows1 where "rows1 =
     (if \<not> b then
        (case latest_q yd of
           None \<Rightarrow> rows
         | Some lq \<Rightarrow>
             (case map_of yd lq of
                None \<Rightarrow> rows
              | Some q_data \<Rightarrow> rows @ [mk_row y lq q_data ''YTD'' (e_value q_data)]))
      else rows)"
  have r1: "x \<in> set rows1 \<Longrightarrow> r_value_type x = ''Quarterly'' \<Longrightarrow> x \<in> set rows" for x
    by (auto simp add: rows1_def mk_row_def split: if_splits option.splits)
  obtain rows2 n2 where q: "quarters_loop y yd quarters (rows1, n) = (rows2, n2)"
    by (cases "quarters_loop y yd quarters (rows1, n)")
  have "fst (process_year y yd (rows, n, b)) =
        (case map_of yd ''FY'' of
           None \<Rightarrow> rows2
         | Some fy_data \<Rightarrow>
             if n2 < NUM_QUARTERS
             then rows2 @ [mk_row y ''FY'' fy_data ''Full Year'' (e_value fy_data)]
             else rows2)"
    using q
    by (auto simp add: process_year_def rows1_def Let_def split: option.splits prod.splits if_splits)
  with assms have "r \<in> set rows2"
    by (auto simp add: mk_row_def split: option.splits if_splits)
  then have "r \<in> set (fst (quarters_loop y yd quarters (rows1, n)))" by (simp add: q)
  from quarters_loop_new_rows[OF this] r1 assms(2) show ?thesis by blast
qed

lemma years_loop_new_rows:
  assumes "r \<in> set (years_loop fys ys st)" and "r_value_type r = ''Quarterly''"
  shows "r \<in> set (fst st) \<or>
   (\<exists>yd d. map_of fys (r_fy r) = Some yd \<and> map_of yd (r_fp r) = Some d
       \<and> r_value r = quarterly_value yd (r_fp r) d)"
  using assms
proof (induction ys arbitrary: st)
  case Nil
  then show ?case by simp
next
  case (Cons y ys)
  obtain rows n b where st: "st = (rows, n, b)" by (cases st)
  show ?case
  proof (cases "NUM_QUARTERS \<le> n")
    case True
    with Cons.prems st show ?thesis by simp
  next
    case False
    show ?thesis
    proof (cases "map_of fys y")
      case None
      with Cons.prems False st have "r \<in> set (years_loop fys ys st)" by simp
      from Cons.IH[OF this Cons.prems(2)] show ?thesis .
    next
      case (Some yd)
      with Cons.prems False st
      have "r \<in> set (years_loop fys ys (process_year y yd (rows, n, b)))" by simp
      from Cons.IH[OF this Cons.prems(2)]
      consider "r \<in> set (fst (process_year y yd (rows, n, b)))"
        | "\<exists>yd d. map_of fys (r_fy r) = Some yd \<and> map_of yd (r_fp r) = Some d
             \<and> r_value r = quarterly_value yd (r_fp r) d"
        by blast
      then show ?thesis
      proof cases
        case 1
        from process_year_new_rows[OF 1 Cons.prems(2)] Some st show ?thesis
          by (auto simp add: mk_row_def format_value_id)
      next
        case 2
        then show ?thesis by blast
      qed
    qed
  qed
qed

lemma process_metric_rows:
  assumes "process_metric (Some md) = Inr rows" and "r \<in> set rows"
    and "r_value_type r = ''Quarterly''"
  shows "\<exists>fys yd d. build_fiscal_years (fst (extract_quarterly_data (Some md))) [] = Inr fys
           \<and> map_of fys (r_fy r) = Some yd \<and> map_of yd (r_fp r) = Some d
           \<and> r_value r = quarterly_value yd (r_fp r) d"
proof -
  let ?xs = "sort_reverse item_key (filter is_quarterly_or_annual md)"
  from assms(1,2) have ne: "?xs \<noteq> []"
    by (auto simp add: process_metric_def extract_quarterly_data_def split: if_splits)
  with assms(1) obtain fys where b: "build_fiscal_years ?xs [] = Inr fys"
    and rows: "rows = years_loop fys (sorted_years fys) ([], 0, False)"
    by (auto simp add: process_metric_def extract_quarterly_data_def split: sum.splits)
  from years_loop_new_rows[of r fys "sorted_years fys" "([], 0, False)"] assms(2,3) rows
  obtain yd d where "map_of fys (r_fy r) = Some yd" "map_of yd (r_fp r) = Some d"
       "r_value r = quarterly_value yd (r_fp r) d"
    by auto
  with b show ?thesis by (auto simp add: extract_quarterly_data_def)
qed

subsection \<open>A quarter whose predecessor is missing\<close>

text \<open>
  C2. Every Quarterly row that the reconciliation of a list of facts stores belongs to
  a stored fact of its fiscal year and quarter, and when the predecessor of that quarter
  has no fact in the same fiscal year the row carries the fact's own year-to-date
  value, unchanged. When the facts belong to one fiscal year, such a row is stored for
  every quarter that has a fact. No exception leaves the reconciliation of facts that
  all carry a filing date.
\<close>

theorem missing_predecessor_keeps_ytd:
  "(process_metric (Some md) = Inr rows \<and> r \<in> set rows \<and> r_value_type r = ''Quarterly'' \<longrightarrow>
      (\<exists>fys yd d.
          build_fiscal_years (fst (extract_quarterly_data (Some md))) [] = Inr fys
          \<and> map_of fys (r_fy r) = Some yd \<and> map_of yd (r_fp r) = Some d
          \<and> ((\<exists>p. prev_q (r_fp r) = Some p \<and> map_of yd p = None) \<longrightarrow> r_value r = e_value d)))
   \<and> (q \<in> set quarters \<and> map_of yd1 q = Some d1 \<and> prev_q q = Some p1 \<and> map_of yd1 p1 = None \<longrightarrow>
        quarterly_values (years_loop [(y, yd1)] (sorted_years [(y, yd1)]) ([], 0, False)) q
          = [e_value d1])
   \<and> ((\<forall>x\<in>set md. i_filed x \<noteq> None) \<longrightarrow> (\<exists>rows'. process_metric (Some md) = Inr rows'))"
proof -
  have a: "process_metric (Some md) = Inr rows \<and> r \<in> set rows \<and> r_value_type r = ''Quarterly'' \<longrightarrow>
      (\<exists>fys yd d.
          build_fiscal_years (fst (extract_quarterly_data (Some md))) [] = Inr fys
          \<and> map_of fys (r_fy r) = Some yd \<and> map_of yd (r_fp r) = Some d
          \<and> ((\<exists>p. prev_q (r_fp r) = Some p \<and> map_of yd p = None) \<longrightarrow> r_value r = e_value d))"
  proof (intro impI, elim conjE)
    assume h: "process_metric (Some md) = Inr rows" "r \<in> set rows" "r_value_type r = ''Quarterly''"
    from process_metric_rows[OF h] obtain fys yd d where
      b: "build_fiscal_years (fst (extract_quarterly_data (Some md))) [] = Inr fys"
      and y: "map_of fys (r_fy r) = Some yd" and d: "map_of yd (r_fp r) = Some d"
      and v: "r_value r = quarterly_value yd (r_fp r) d"
      by blast
    have "r_value r = e_value d" if "\<exists>p. prev_q (r_fp r) = Some p \<and> map_of yd p = None"
      using that v by (auto simp add: quarterly_value_def)
    with b y d show "\<exists>fys yd d.
          build_fiscal_years (fst (extract_quarterly_data (Some md))) [] = Inr fys
          \<and> map_of fys (r_fy r) = Some yd \<and> map_of yd (r_fp r) = Some d
          \<and> ((\<exists>p. prev_q (r_fp r) = Some p \<and> map_of yd p = None) \<longrightarrow> r_value r = e_value d)"
      by blast
  qed
  have "quarterly_value yd1 q d1 = e_value d1" if "prev_q q = Some p1" "map_of yd1 p1 = None"
    using that by (simp add: quarterly_value_def)
  then have b: "q \<in> set quarters \<and> map_of yd1 q = Some d1 \<and> prev_q q = Some p1 \<and> map_of yd1 p1 = None \<longrightarrow>
        quarterly_values (years_loop [(y, yd1)] (sorted_years [(y, yd1)]) ([], 0, False)) q
          = [e_value d1]"
    by (auto simp add: quarterly_values_single_year)
  have c: "(\<forall>x\<in>set md. i_filed x \<noteq> None) \<longrightarrow> (\<exists>rows'. process_metric (Some md) = Inr rows')"
    using process_metric_total by blast
  from a b c show ?thesis by blast
qed

text \<open>
  The theorem at the facts Q1 = 100 of fiscal year 2023 and Q2 = 250 of fiscal year
  2022, and at the year table that holds Q2 only.
\<close>

theorem missing_predecessor_keeps_ytd_witness:
  "process_metric (Some [fact_in 2023 ''Q1'' ''2023-03-31'' ''2023-04-20'' 100,
                         fact_in 2022 ''Q2'' ''2022-06-30'' ''2022-07-20'' 250])
     = Inr [\<lparr>r_fy = 2023, r_fp = ''Q1'', r_end_date = Some ''2023-03-31'',
              r_filed = Some ''2023-04-20'', r_value_type = ''YTD'', r_value = Some 100\<rparr>,
            \<lparr>r_fy = 2023, r_fp = ''Q1'', r_end_date = Some ''2023-03-31'',
              r_filed = Some ''2023-04-20'', r_value_type = ''Quarterly'', r_value = Some 100\<rparr>,
            \<lparr>r_fy = 2022, r_fp = ''Q2'', r_end_date = Some ''2022-06-30'',
              r_filed = Some ''2022-07-20'', r_value_type = ''Quarterly'', r_value = Some 250\<rparr>]
   \<and> prev_q ''Q2'' = Some ''Q1''
   \<and> r_value \<lparr>r_fy = 2022, r_fp = ''Q2'', r_end_date = Some ''2022-06-30'',
              r_filed = Some ''2022-07-20'', r_value_type = ''Quarterly'', r_value = Some 250\<rparr>
       = e_value (entry_of (fact_in 2022 ''Q2'' ''2022-06-30'' ''2022-07-20'' 250) ''Q2'')
   \<and> quarterly_values
        (years_loop
           [(2022, [(''Q2'', entry_of (fact_in 2022 ''Q2'' ''2022-06-30'' ''2022-07-20'' 250) ''Q2'')])]
           (sorted_years
              [(2022, [(''Q2'', entry_of (fact_in 2022 ''Q2'' ''2022-06-30'' ''2022-07-20'' 250) ''Q2'')])])
           ([], 0, False)) ''Q2''
       = [Some 250]
   \<and> i_filed (fact_in 2023 ''Q1'' ''2023-03-31'' ''2023-04-20'' 100) \<noteq> None
   \<and> i_filed (fact_in 2022 ''Q2'' ''2022-06-30'' ''2022-07-20'' 250) \<noteq> None"
proof -
  let ?f1 = "fact_in 2023 ''Q1'' ''2023-03-31'' ''2023-04-20'' 100"
  let ?f2 = "fact_in 2022 ''Q2'' ''2022-06-30'' ''2022-07-20'' 250"
  let ?md = "[?f1, ?f2]"
  let ?r = "\<lparr>r_fy = 2022, r_fp = ''Q2'', r_end_date = Some ''2022-06-30'',
              r_filed = Some ''2022-07-20'', r_value_type = ''Quarterly'', r_value = Some 250\<rparr>"
  let ?rows = "[\<lparr>r_fy = 2023, r_fp = ''Q1'', r_end_date = Some ''2023-03-31'',
              r_filed = Some ''2023-04-20'', r_value_type = ''YTD'', r_value = Some 100\<rparr>,
            \<lparr>r_fy = 2023, r_fp = ''Q1'', r_end_date = Some ''2023-03-31'',
              r_filed = Some ''2023-04-20'', r_value_type = ''Quarterly'', r_value = Some 100\<rparr>,
            ?r]"
  let ?e2 = "entry_of ?f2 ''Q2''"
  let ?yd = "[(''Q2'', ?e2)]"
  let ?F = "[(2023, [(''Q1'', entry_of ?f1 ''Q1'')]), (2022, ?yd)]"
  have h1: "process_metric (Some ?md) = Inr ?rows" by code_simp
  have h2: "?r \<in> set ?rows" by simp
  have h3: "r_value_type ?r = ''Quarterly''" by simp
  have h4: "prev_q ''Q2'' = Some ''Q1''" by (simp add: prev_q_def)
  have h5: "build_fiscal_years (fst (extract_quarterly_data (Some ?md))) [] = Inr ?F"
    by code_simp
  have h6: "''Q2'' \<in> set quarters" by (simp add: quarters_def)
  have h7: "i_filed ?f1 \<noteq> None" "i_filed ?f2 \<noteq> None" by (simp_all add: fact_in_def)
  have h8: "e_value ?e2 = Some 250" by (simp add: entry_of_def fact_in_def)
  note t = missing_predecessor_keeps_ytd[of ?md ?rows ?r "''Q2''" ?yd ?e2 "''Q1''" 2022]
  from t h1 h2 h3 obtain fys yd d where
    b: "build_fiscal_years (fst (extract_quarterly_data (Some ?md))) [] = Inr fys"
    and y: "map_of fys (r_fy ?r) = Some yd" and d: "map_of yd (r_fp ?r) = Some d"
    and v: "(\<exists>p. prev_q (r_fp ?r) = Some p \<and> map_of yd p = None) \<longrightarrow> r_value ?r = e_value d"
    by blast
  from b h5 have "fys = ?F" by simp
  with y have "yd = ?yd" by simp
  with d have dd: "d = ?e2" by simp
  from \<open>yd = ?yd\<close> h4 have "\<exists>p. prev_q (r_fp ?r) = Some p \<and> map_of yd p = None" by simp
  with v dd have c1: "r_value ?r = e_value ?e2" by blast
  from t h6 h4 have c2: "quarterly_values (years_loop [(2022, ?yd)] (sorted_years [(2022, ?yd)])
           ([], 0, False)) ''Q2'' = [e_value ?e2]"
    by simp
  from h1 h4 c1 c2 h7 h8 show ?thesis by simp
qed

text \<open>
  A fiscal year whose only fact is Q2 = 250: the Quarterly value of Q2 is 250, the
  year-to-date figure, and not an absent value.
\<close>

theorem missing_predecessor_counterexample:
  "process_metric (Some [fact ''Q2'' ''2023-06-30'' ''2023-07-20'' 250])
     = Inr [\<lparr>r_fy = 2023, r_fp = ''Q2'', r_end_date = Some ''2023-06-30'',
              r_filed = Some ''2023-07-20'', r_value_type = ''YTD'', r_value = Some 250\<rparr>,
            \<lparr>r_fy = 2023, r_fp = ''Q2'', r_end_date = Some ''2023-06-30'',
              r_filed = Some ''2023-07-20'', r_value_type = ''Quarterly'', r_value = Some 250\<rparr>]
   \<and> Some (250::rat) \<noteq> None"
  by code_simp

subsection \<open>Duplicate facts of one period\<close>

text \<open>
  Facts that carry a filing date: the loop stores for each period the fact with the
  latest filing date among the facts of that period, and the first of them in list
  order when several share that date. Two facts of one quarter filed on 2023-01-01 with
  value 10 and on 2023-04-01 with value 12 reconcile to 12, in either order.
\<close>

theorem latest_filed_kept:
  "((\<forall>x\<in>set xs. i_filed x \<noteq> None) \<longrightarrow>
      (\<exists>fys. build_fiscal_years xs [] = Inr fys
         \<and> (\<forall>y p. first_latest p (candidates xs y p) (lookup_period fys y p))))
   \<and> process_metric (Some [fact ''Q1'' ''2022-12-31'' ''2023-01-01'' 10,
                           fact ''Q1'' ''2022-12-31'' ''2023-04-01'' 12])
       = Inr [\<lparr>r_fy = 2023, r_fp = ''Q1'', r_end_date = Some ''2022-12-31'',
                r_filed = Some ''2023-04-01'', r_value_type = ''YTD'', r_value = Some 12\<rparr>,
              \<lparr>r_fy = 2023, r_fp = ''Q1'', r_end_date = Some ''2022-12-31'',
                r_filed = Some ''2023-04-01'', r_value_type = ''Quarterly'', r_value = Some 12\<rparr>]
   \<and> process_metric (Some [fact ''Q1'' ''2022-12-31'' ''2023-04-01'' 12,
                           fact ''Q1'' ''2022-12-31'' ''2023-01-01'' 10])
       = Inr [\<lparr>r_fy = 2023, r_fp = ''Q1'', r_end_date = Some ''2022-12-31'',
                r_filed = Some ''2023-04-01'', r_value_type = ''YTD'', r_value = Some 12\<rparr>,
              \<lparr>r_fy = 2023, r_fp = ''Q1'', r_end_date = Some ''2022-12-31'',
                r_filed = Some ''2023-04-01'', r_value_type = ''Quarterly'', r_value = Some 12\<rparr>]"
proof -
  have a: "(\<forall>x\<in>set xs. i_filed x \<noteq> None) \<longrightarrow>
      (\<exists>fys. build_fiscal_years xs [] = Inr fys
         \<and> (\<forall>y p. first_latest p (candidates xs y p) (lookup_period fys y p)))"
    using build_invariant[of xs] by blast
  have b: "process_metric (Some [fact ''Q1'' ''2022-12-31'' ''2023-01-01'' 10,
                           fact ''Q1'' ''2022-12-31'' ''2023-04-01'' 12])
       = Inr [\<lparr>r_fy = 2023, r_fp = ''Q1'', r_end_date = Some ''2022-12-31'',
                r_filed = Some ''2023-04-01'', r_value_type = ''YTD'', r_value = Some 12\<rparr>,
              \<lparr>r_fy = 2023, r_fp = ''Q1'', r_end_date = Some ''2022-12-31'',
                r_filed = Some ''2023-04-01'', r_value_type = ''Quarterly'', r_value = Some 12\<rparr>]"
    by code_simp
  have c: "process_metric (Some [fact ''Q1'' ''2022-12-31'' ''2023-04-01'' 12,
                           fact ''Q1'' ''2022-12-31'' ''2023-01-01'' 10])
       = Inr [\<lparr>r_fy = 2023, r_fp = ''Q1'', r_end_date = Some ''2022-12-31'',
                r_filed = Some ''2023-04-01'', r_value_type = ''YTD'', r_value = Some 12\<rparr>,
              \<lparr>r_fy = 2023, r_fp = ''Q1'', r_end_date = Some ''2022-12-31'',
                r_filed = Some ''2023-04-01'', r_value_type = ''Quarterly'', r_value = Some 12\<rparr>]"
    by code_simp
  from a b c show ?thesis by blast
qed

text \<open>The theorem at the two facts of the example, in the order they are listed.\<close>

theorem latest_filed_kept_witness:
  "i_filed (fact ''Q1'' ''2022-12-31'' ''2023-01-01'' 10) \<noteq> None
   \<and> i_filed (fact ''Q1'' ''2022-12-31'' ''2023-04-01'' 12) \<noteq> None
   \<and> (\<exists>fys. build_fiscal_years [fact ''Q1'' ''2022-12-31'' ''2023-01-01'' 10,
                                 fact ''Q1'' ''2022-12-31'' ''2023-04-01'' 12] [] = Inr fys
         \<and> lookup_period fys 2023 ''Q1''
             = Some (entry_of (fact ''Q1'' ''2022-12-31'' ''2023-04-01'' 12) ''Q1'')
         \<and> first_latest ''Q1''
             (candidates [fact ''Q1'' ''2022-12-31'' ''2023-01-01'' 10,
                          fact ''Q1'' ''2022-12-31'' ''2023-04-01'' 12] 2023 ''Q1'')
             (lookup_period fys 2023 ''Q1''))"
proof -
  let ?xs = "[fact ''Q1'' ''2022-12-31'' ''2023-01-01'' 10,
              fact ''Q1'' ''2022-12-31'' ''2023-04-01'' 12]"
  have h: "\<forall>x\<in>set ?xs. i_filed x \<noteq> None" by (simp add: fact_def)
  with latest_filed_kept[of ?xs] obtain fys where
    b: "build_fiscal_years ?xs [] = Inr fys"
    and f: "\<forall>y p. first_latest p (candidates ?xs y p) (lookup_period fys y p)"
    by blast
  have "build_fiscal_years ?xs []
          = Inr [(2023, [(''Q1'', entry_of (fact ''Q1'' ''2022-12-31'' ''2023-04-01'' 12) ''Q1'')])]"
    by code_simp
  with b have "fys = [(2023, [(''Q1'', entry_of (fact ''Q1'' ''2022-12-31'' ''2023-04-01'' 12) ''Q1'')])]"
    by simp
  then have "lookup_period fys 2023 ''Q1''
               = Some (entry_of (fact ''Q1'' ''2022-12-31'' ''2023-04-01'' 12) ''Q1'')"
    by (simp add: lookup_period_def)
  moreover have "i_filed (fact ''Q1'' ''2022-12-31'' ''2023-01-01'' 10) \<noteq> None"
    and "i_filed (fact ''Q1'' ''2022-12-31'' ''2023-04-01'' 12) \<noteq> None"
    by (simp_all add: fact_def)
  ultimately show ?thesis using b f by blast
qed

text \<open>
  C3. Two facts of one fiscal year and quarter without a filing date, with values 10 and
  12: the sort key reads the missing date as the empty string, but the comparison of the
  second fact with the stored first one is made on \<open>None\<close> and raises TypeError, so no
  fact is kept where the last one should win.
\<close>

theorem unfiled_duplicates_raise:
  "item_key (fact_unfiled ''Q1'' ''2023-03-31'' 10) = (''2023-03-31'', [])
   \<and> process_metric (Some [fact_unfiled ''Q1'' ''2023-03-31'' 10,
                           fact_unfiled ''Q1'' ''2023-03-31'' 12]) = Inl TypeError"
  by code_simp

subsection \<open>The order of the facts\<close>

text \<open>
  C9. The reconciliation is a function of the list of facts, so running it again gives
  the same rows. Reordering the facts does not change the rows when no two different
  10-Q or 10-K facts share both the end date and the filing date.
\<close>

theorem reconcile_permutation:
  "mset md = mset md' \<and> inj_on item_key (set (filter is_quarterly_or_annual md)) \<longrightarrow>
     process_metric (Some md) = process_metric (Some md')"
  using process_metric_perm by blast

text \<open>The theorem at two facts of different quarters and their two orders.\<close>

theorem reconcile_permutation_witness:
  "mset [fact ''Q1'' ''2023-03-31'' ''2023-04-20'' 100, fact ''Q2'' ''2023-06-30'' ''2023-07-20'' 250]
     = mset [fact ''Q2'' ''2023-06-30'' ''2023-07-20'' 250, fact ''Q1'' ''2023-03-31'' ''2023-04-20'' 100]
   \<and> inj_on item_key
        (set (filter is_quarterly_or_annual
           [fact ''Q1'' ''2023-03-31'' ''2023-04-20'' 100, fact ''Q2'' ''2023-06-30'' ''2023-07-20'' 250]))
   \<and> process_metric
        (Some [fact ''Q1'' ''2023-03-31'' ''2023-04-20'' 100, fact ''Q2'' ''2023-06-30'' ''2023-07-20'' 250])
       = process_metric
        (Some [fact ''Q2'' ''2023-06-30'' ''2023-07-20'' 250, fact ''Q1'' ''2023-03-31'' ''2023-04-20'' 100])"
proof -
  let ?a = "fact ''Q1'' ''2023-03-31'' ''2023-04-20'' 100"
  let ?b = "fact ''Q2'' ''2023-06-30'' ''2023-07-20'' 250"
  have h1: "mset [?a, ?b] = mset [?b, ?a]" by (simp add: add.commute)
  have h2: "inj_on item_key (set (filter is_quarterly_or_annual [?a, ?b]))"
    by (simp add: fact_def is_quarterly_or_annual_def item_key_def get_str_def)
  from reconcile_permutation[of "[?a, ?b]" "[?b, ?a]"] h1 h2 show ?thesis by blast
qed

text \<open>
  Two facts of one quarter with the same end date and the same filing date, with values
  10 and 12: the first in the input wins, so the two orders give different rows.
\<close>

theorem reconcile_order_counterexample:
  "process_metric (Some [fact ''Q1'' ''2023-03-31'' ''2023-04-20'' 10,
                         fact ''Q1'' ''2023-03-31'' ''2023-04-20'' 12])
   \<noteq> process_metric (Some [fact ''Q1'' ''2023-03-31'' ''2023-04-20'' 12,
                           fact ''Q1'' ''2023-03-31'' ''2023-04-20'' 10])"
  by code_simp

section \<open>Properties of the free-text extraction\<close>

lemma extract_fields_lookup:
  "distinct (map fst tbl) \<Longrightarrow>
   extract_fields fa tbl d k =
     (case map_of tbl k of
        None \<Rightarrow> d k
      | Some pats \<Rightarrow> (case extract_field fa pats of None \<Rightarrow> d k | Some v \<Rightarrow> Some v))"
proof (induction tbl arbitrary: d)
  case Nil
  then show ?case by simp
next
  case (Cons a tbl)
  obtain f ps where a: "a = (f, ps)" by (cases a)
  from Cons.prems a have d: "distinct (map fst tbl)" and nf: "f \<notin> fst ` set tbl" by auto
  from nf have m: "map_of tbl f = None" by (simp add: map_of_eq_None_iff)
  show ?case
    using Cons.IH[OF d] m by (auto simp add: a split: option.split)
qed

lemma distinct_income: "distinct (map fst income_patterns)"
  by (simp add: income_patterns_def)

lemma distinct_balance: "distinct (map fst balance_patterns)"
  by (simp add: balance_patterns_def)

lemma distinct_cash_flow: "distinct (map fst cash_flow_patterns)"
  by (simp add: cash_flow_patterns_def)

lemma extract_fields_table:
  "distinct (map fst tbl) \<Longrightarrow>
   extract_fields fa tbl Map.empty k =
     (case map_of tbl k of None \<Rightarrow> None | Some pats \<Rightarrow> extract_field fa pats)"
  by (simp add: extract_fields_lookup split: option.split)

lemma income_field:
  "map_of income_patterns k = Some pats \<Longrightarrow>
   extract_income_statement_generic fa k = extract_field fa pats"
proof -
  assume k: "map_of income_patterns k = Some pats"
  then have "k \<noteq> ''gross_profit_calculated''"
    by (auto simp add: income_patterns_def split: if_splits)
  with k show ?thesis
    by (simp add: extract_income_statement_generic_def Let_def
        extract_fields_table[OF distinct_income] split: option.split)
qed

lemma balance_field:
  "map_of balance_patterns k = Some pats \<Longrightarrow>
   extract_balance_sheet_generic fa k = extract_field fa pats"
proof -
  assume k: "map_of balance_patterns k = Some pats"
  then have "k \<noteq> ''total_equity''"
    by (auto simp add: balance_patterns_def split: if_splits)
  with k show ?thesis
    by (simp add: extract_balance_sheet_generic_def Let_def
        extract_fields_table[OF distinct_balance] split: option.split)
qed

lemma cash_flow_field:
  "map_of cash_flow_patterns k = Some pats \<Longrightarrow>
   extract_cash_flow_generic fa k = extract_field fa pats"
proof -
  assume k: "map_of cash_flow_patterns k = Some pats"
  then have "k \<noteq> ''free_cash_flow_calculated''"
    by (auto simp add: cash_flow_patterns_def split: if_splits)
  with k show ?thesis
    by (simp add: extract_cash_flow_generic_def Let_def
        extract_fields_table[OF distinct_cash_flow] split: option.split)
qed

text \<open>A pattern fails when it has no match or its last match is not a number.\<close>

lemma extract_field_first:
  assumes "\<forall>p'\<in>set pre. fa p' = [] \<or> normalize_literal (last (fa p')) = None"
    and "fa p \<noteq> []" and "normalize_literal (last (fa p)) = Some v"
  shows "extract_field fa (pre @ p # post) = Some v"
  using assms by (induction pre) (auto simp add: Let_def)

lemma extract_field_none:
  "\<forall>p\<in>set pats. fa p = [] \<Longrightarrow> extract_field fa pats = None"
  by (induction pats) (simp_all add: Let_def)

lemma income_not_in_table:
  "extract_fields fa income_patterns Map.empty ''gross_profit_calculated'' = None"
proof -
  have "map_of income_patterns ''gross_profit_calculated'' = None"
    by (simp add: income_patterns_def)
  then show ?thesis by (simp add: extract_fields_table[OF distinct_income])
qed

lemma income_calculated:
  "extract_income_statement_generic fa ''gross_profit_calculated'' =
     (case extract_income_statement_generic fa ''revenue'' of
        None \<Rightarrow> None
      | Some r \<Rightarrow>
          (case extract_income_statement_generic fa ''cost_of_revenue'' of
             None \<Rightarrow> None
           | Some c \<Rightarrow> Some (r - c)))"
proof -
  define d where "d = extract_fields fa income_patterns Map.empty"
  have n: "d ''gross_profit_calculated'' = None"
    by (simp add: d_def income_not_in_table)
  have e: "extract_income_statement_generic fa =
        (case d ''revenue'' of
           None \<Rightarrow> d
         | Some r \<Rightarrow>
             (case d ''cost_of_revenue'' of
                None \<Rightarrow> d
              | Some c \<Rightarrow> d(''gross_profit_calculated'' \<mapsto> r - c)))"
    by (simp add: extract_income_statement_generic_def d_def [symmetric] split: option.split)
  show ?thesis
  proof (cases "d ''revenue''")
    case None
    then show ?thesis by (simp add: e n)
  next
    case r: (Some r)
    show ?thesis
    proof (cases "d ''cost_of_revenue''")
      case None
      with r show ?thesis by (simp add: e n)
    next
      case (Some c)
      with r show ?thesis by (simp add: e)
    qed
  qed
qed

lemma normalize_samples:
  "normalize_literal ''1,500'' = Some 1500"
  "normalize_literal ''2,000'' = Some 2000"
  "normalize_literal ''1,200'' = Some 1200"
  "normalize_literal ''0'' = Some 0"
  "normalize_literal ''500'' = Some 500000000"
  "normalize_literal ''1.5'' = Some 1500000"
  "normalize_literal ''1500'' = Some 1500"
  by (simp_all add: normalize_literal_def py_float_def remove_commas_def is_digit_def
      int_of_digits_def digit_value_def scale_value_def)

lemma gross_profit_filing_fields:
  "extract_income_statement_generic gross_profit_filing ''revenue'' = Some 2000"
  "extract_income_statement_generic gross_profit_filing ''cost_of_revenue'' = Some 1500"
  "extract_income_statement_generic gross_profit_filing ''gross_profit'' = Some 1200"
proof -
  have r: "map_of income_patterns ''revenue'' = Some [Amount ''Total revenue'', Amount ''Revenue'', Amount ''Net sales'', Sales_amount]"
    by (simp add: income_patterns_def)
  have c: "map_of income_patterns ''cost_of_revenue'' = Some [Amount ''Cost of revenue'', Amount ''Cost of sales'', Amount ''Cost of goods sold'']"
    by (simp add: income_patterns_def)
  have g: "map_of income_patterns ''gross_profit'' = Some [Amount ''Gross profit'', Amount ''Gross margin'']"
    by (simp add: income_patterns_def)
  show "extract_income_statement_generic gross_profit_filing ''revenue'' = Some 2000"
    by (simp add: income_field[OF r] gross_profit_filing_def normalize_samples)
  show "extract_income_statement_generic gross_profit_filing ''cost_of_revenue'' = Some 1500"
    by (simp add: income_field[OF c] gross_profit_filing_def normalize_samples)
  show "extract_income_statement_generic gross_profit_filing ''gross_profit'' = Some 1200"
    by (simp add: income_field[OF g] gross_profit_filing_def normalize_samples)
qed

lemma get0_simps: "d k = None \<Longrightarrow> get0 d k = 0" "d k = Some v \<Longrightarrow> get0 d k = v"
  by (simp_all add: get0_def)

lemma get_or_simps: "d k = None \<Longrightarrow> get_or d k x = x" "d k = Some v \<Longrightarrow> get_or d k x = v"
  by (simp_all add: get_or_def)



subsection \<open>The derived gross profit\<close>

text \<open>
  C8. On the text \<open>Cost of revenue 1,500\<close>, \<open>Revenue 2,000\<close>, \<open>Gross profit 1,200\<close> the
  income extraction finds the reported gross profit 1200 and still stores the derived
  field, 2000 - 1500 = 500; the assembled record keeps the reported 1200.
\<close>

theorem gross_profit_calculated_beside_reported:
  "extract_income_statement_generic gross_profit_filing ''gross_profit'' = Some 1200
   \<and> extract_income_statement_generic gross_profit_filing ''gross_profit_calculated'' = Some 500
   \<and> csv_gross_profit (parse_financial_data gross_profit_filing Map.empty ''ACME'') = 1200"
  by (simp add: income_calculated gross_profit_filing_fields parse_financial_data_def
      prepare_data_for_csv_generic_def Let_def get_or_simps)

subsection \<open>Scale normalization\<close>

text \<open>
  C5. A captured literal that reads as the number \<open>v\<close> is normalized to
  \<open>v * 1000000\<close> exactly when \<open>0 < v < 1000\<close> and to \<open>v\<close> itself otherwise. The
  literal 1.5 becomes 1500000 and the literal 1500 stays 1500.
\<close>

theorem scale_normalization:
  "(py_float (remove_commas s) = Some v \<longrightarrow>
      normalize_literal s = Some (if 0 < v \<and> v < 1000 then v * 1000000 else v))
   \<and> normalize_literal ''1.5'' = Some 1500000
   \<and> normalize_literal ''1500'' = Some 1500"
  by (auto simp add: normalize_samples) (auto simp add: normalize_literal_def scale_value_def)

text \<open>The theorem at the literal 1.5, which reads as three halves.\<close>

theorem scale_normalization_witness:
  "py_float (remove_commas ''1.5'') = Some (3 / 2)
   \<and> normalize_literal ''1.5'' = Some (3 / 2 * 1000000)"
proof -
  have h: "py_float (remove_commas ''1.5'') = Some (3 / 2)"
    by (simp add: py_float_def remove_commas_def is_digit_def int_of_digits_def digit_value_def)
  with scale_normalization[of "''1.5''" "3 / 2"] show ?thesis by simp
qed

subsection \<open>Which occurrence of a pattern is taken\<close>

text \<open>
  C10. In each of the three extractions, a field whose pattern list is
  \<open>pre @ p # post\<close>, where every pattern of \<open>pre\<close> has no match or a last match that
  is not a number and \<open>p\<close> has matches the last of which normalizes to \<open>v\<close>, gets the
  value \<open>v\<close>: the last match of the first successful pattern, whatever the earlier
  matches of that pattern are.
\<close>

theorem last_match_taken:
  "(\<forall>p'\<in>set pre. fa p' = [] \<or> normalize_literal (last (fa p')) = None)
   \<and> fa p \<noteq> [] \<and> normalize_literal (last (fa p)) = Some v \<longrightarrow>
     (map_of income_patterns k = Some (pre @ p # post) \<longrightarrow>
        extract_income_statement_generic fa k = Some v)
     \<and> (map_of balance_patterns k = Some (pre @ p # post) \<longrightarrow>
        extract_balance_sheet_generic fa k = Some v)
     \<and> (map_of cash_flow_patterns k = Some (pre @ p # post) \<longrightarrow>
        extract_cash_flow_generic fa k = Some v)"
  by (simp add: income_field balance_field cash_flow_field extract_field_first)

text \<open>
  The theorem at the revenue field of the text \<open>Cost of revenue 1,500\<close>,
  \<open>Revenue 2,000\<close>, \<open>Gross profit 1,200\<close>: the second pattern matches twice and the
  value is the second amount.
\<close>

theorem last_match_taken_witness:
  "gross_profit_filing (Amount ''Total revenue'') = []
   \<and> gross_profit_filing (Amount ''Revenue'') = [''1,500'', ''2,000'']
   \<and> normalize_literal (last (gross_profit_filing (Amount ''Revenue''))) = Some 2000
   \<and> map_of income_patterns ''revenue''
       = Some ([Amount ''Total revenue''] @ Amount ''Revenue'' # [Amount ''Net sales'', Sales_amount])
   \<and> extract_income_statement_generic gross_profit_filing ''revenue'' = Some 2000"
proof -
  have h1: "\<forall>p'\<in>set [Amount ''Total revenue''].
              gross_profit_filing p' = [] \<or> normalize_literal (last (gross_profit_filing p')) = None"
    by (simp add: gross_profit_filing_def)
  have h2: "gross_profit_filing (Amount ''Revenue'') = [''1,500'', ''2,000'']"
    by (simp add: gross_profit_filing_def)
  have h3: "normalize_literal (last (gross_profit_filing (Amount ''Revenue''))) = Some 2000"
    by (simp add: h2 normalize_samples)
  have h4: "map_of income_patterns ''revenue''
       = Some ([Amount ''Total revenue''] @ Amount ''Revenue'' # [Amount ''Net sales'', Sales_amount])"
    by (simp add: income_patterns_def)
  have h5: "gross_profit_filing (Amount ''Total revenue'') = []"
    by (simp add: gross_profit_filing_def)
  from last_match_taken[of "[Amount ''Total revenue'']" gross_profit_filing "Amount ''Revenue''" 2000
         "''revenue''" "[Amount ''Net sales'', Sales_amount]"] h1 h2 h3 h4
  have "extract_income_statement_generic gross_profit_filing ''revenue'' = Some 2000"
    by simp
  with h2 h3 h4 h5 show ?thesis by simp
qed

subsection \<open>Which pattern gives a field its value\<close>

lemma extract_field_prefix:
  assumes "\<forall>p'\<in>set pre. fa p' = [] \<or> normalize_literal (last (fa p')) = None"
    and "fa p \<noteq> []" and "normalize_literal (last (fa p)) = Some v"
    and "\<forall>q\<in>set (pre @ [p]). fa' q = fa q"
  shows "extract_field fa' (pre @ p # post') = Some v"
proof (rule extract_field_first)
  show "\<forall>p'\<in>set pre. fa' p' = [] \<or> normalize_literal (last (fa' p')) = None"
    using assms(1,4) by simp
  show "fa' p \<noteq> []" using assms(2,4) by simp
  show "normalize_literal (last (fa' p)) = Some v" using assms(3,4) by simp
qed

text \<open>
  C6. In the free-text extraction, when every pattern before \<open>p\<close> in the list of a
  field has no match or a last match that is not a number, and \<open>p\<close> has matches the
  last of which reads as \<open>v\<close>, the field gets \<open>v\<close>, whatever the magnitude of
  \<open>v\<close>; the patterns after \<open>p\<close> are not tried: the result is the same for any
  patterns after \<open>p\<close> and any text that gives the patterns up to \<open>p\<close> the same
  matches.
\<close>

theorem first_successful_pattern_wins:
  "(\<forall>p'\<in>set pre. fa p' = [] \<or> normalize_literal (last (fa p')) = None)
   \<and> fa p \<noteq> [] \<and> normalize_literal (last (fa p)) = Some v \<longrightarrow>
     extract_field fa (pre @ p # post) = Some v
     \<and> (\<forall>fa' post'. (\<forall>q\<in>set (pre @ [p]). fa' q = fa q) \<longrightarrow>
            extract_field fa' (pre @ p # post') = Some v)"
  using extract_field_first[of pre fa p v post] extract_field_prefix[of pre fa p v]
  by blast

text \<open>
  The theorem at the text \<open>Total revenue 0\<close>, \<open>Revenue 500\<close> and the revenue patterns:
  the first pattern succeeds with 0, also when the later patterns are left out.
\<close>

theorem first_successful_pattern_wins_witness:
  "zero_revenue_filing (Amount ''Total revenue'') \<noteq> []
   \<and> normalize_literal (last (zero_revenue_filing (Amount ''Total revenue''))) = Some 0
   \<and> extract_field zero_revenue_filing
        ([] @ Amount ''Total revenue'' # [Amount ''Revenue'', Amount ''Net sales'', Sales_amount])
       = Some 0
   \<and> extract_field zero_revenue_filing ([] @ Amount ''Total revenue'' # []) = Some 0"
proof -
  have h1: "\<forall>p'\<in>set []. zero_revenue_filing p' = []
              \<or> normalize_literal (last (zero_revenue_filing p')) = None"
    by simp
  have h2: "zero_revenue_filing (Amount ''Total revenue'') \<noteq> []"
    by (simp add: zero_revenue_filing_def)
  have h3: "normalize_literal (last (zero_revenue_filing (Amount ''Total revenue''))) = Some 0"
    by (simp add: zero_revenue_filing_def normalize_samples)
  note t = first_successful_pattern_wins[of "[]" zero_revenue_filing "Amount ''Total revenue''" 0
             "[Amount ''Revenue'', Amount ''Net sales'', Sales_amount]"]
  from t h1 h2 h3 have a: "extract_field zero_revenue_filing
        ([] @ Amount ''Total revenue'' # [Amount ''Revenue'', Amount ''Net sales'', Sales_amount])
       = Some 0"
    by blast
  from t h1 h2 h3 have "\<forall>fa' post'. (\<forall>q\<in>set ([] @ [Amount ''Total revenue'']).
            fa' q = zero_revenue_filing q) \<longrightarrow>
            extract_field fa' ([] @ Amount ''Total revenue'' # post') = Some 0"
    by blast
  then have b: "extract_field zero_revenue_filing ([] @ Amount ''Total revenue'' # []) = Some 0"
    by blast
  from h2 h3 a b show ?thesis by blast
qed

text \<open>
  On the text \<open>Total revenue 0\<close>, \<open>Revenue 500\<close> the revenue is 0, the last match of
  the first pattern, although 0 is not above 0.01 and the second pattern has the match
  500.
\<close>

theorem zero_first_match_counterexample:
  "extract_income_statement_generic zero_revenue_filing ''revenue'' = Some 0
   \<and> \<not> \<bar>0::rat\<bar> > 1 / 100
   \<and> normalize_literal (last (zero_revenue_filing (Amount ''Revenue''))) = Some 500000000"
proof -
  have r: "map_of income_patterns ''revenue''
             = Some [Amount ''Total revenue'', Amount ''Revenue'', Amount ''Net sales'', Sales_amount]"
    by (simp add: income_patterns_def)
  have b: "extract_income_statement_generic zero_revenue_filing ''revenue'' = Some 0"
    by (simp add: income_field[OF r] zero_revenue_filing_def normalize_samples)
  have c: "normalize_literal (last (zero_revenue_filing (Amount ''Revenue''))) = Some 500000000"
    by (simp add: zero_revenue_filing_def normalize_samples)
  from b c show ?thesis by simp
qed

subsection \<open>Metrics that no pattern matched\<close>

lemma empty_filing_income: "extract_income_statement_generic empty_filing k = None"
proof (cases "k = ''gross_profit_calculated''")
  case True
  have "extract_fields empty_filing income_patterns Map.empty k' = None" for k'
    by (simp add: extract_fields_table[OF distinct_income] extract_field_none empty_filing_def
        split: option.split)
  then show ?thesis
    by (simp add: extract_income_statement_generic_def)
next
  case False
  then show ?thesis
    by (simp add: extract_income_statement_generic_def Let_def
        extract_fields_table[OF distinct_income] extract_field_none empty_filing_def
        split: option.split)
qed

text \<open>
  C7. A field none of whose patterns matches is absent from the extracted income
  dictionary, and the record assembled by \<open>prepare_data_for_csv_generic\<close> holds 0 for
  every metric that is absent from the dictionaries it reads.
\<close>

theorem absent_metric_defaults_to_zero:
  "((\<forall>p\<in>set pats. fa p = []) \<and> map_of income_patterns k = Some pats \<longrightarrow>
      extract_income_statement_generic fa k = None)
   \<and> (complete_income_statement data ''revenue'' = None \<longrightarrow>
        csv_revenue (prepare_data_for_csv_generic data) = 0)
   \<and> (complete_income_statement data ''net_income'' = None \<longrightarrow>
        csv_net_income (prepare_data_for_csv_generic data) = 0)
   \<and> (complete_income_statement data ''operating_income'' = None \<longrightarrow>
        csv_operating_income (prepare_data_for_csv_generic data) = 0
        \<and> csv_ebitda (prepare_data_for_csv_generic data) = 0)
   \<and> (complete_income_statement data ''gross_profit'' = None
        \<and> complete_income_statement data ''gross_profit_calculated'' = None \<longrightarrow>
        csv_gross_profit (prepare_data_for_csv_generic data) = 0)
   \<and> (complete_income_statement data ''cost_of_revenue'' = None \<longrightarrow>
        csv_cogs (prepare_data_for_csv_generic data) = 0)
   \<and> (complete_income_statement data ''selling_general_admin'' = None \<longrightarrow>
        csv_sga_expense (prepare_data_for_csv_generic data) = 0)
   \<and> (complete_income_statement data ''research_development'' = None \<longrightarrow>
        csv_rd_expense (prepare_data_for_csv_generic data) = 0)
   \<and> (complete_balance_sheet data ''total_assets'' = None \<longrightarrow>
        csv_total_assets (prepare_data_for_csv_generic data) = 0)
   \<and> (complete_balance_sheet data ''total_liabilities'' = None \<longrightarrow>
        csv_total_liabilities (prepare_data_for_csv_generic data) = 0)
   \<and> (complete_balance_sheet data ''total_debt'' = None \<longrightarrow>
        csv_total_debt (prepare_data_for_csv_generic data) = 0)
   \<and> (complete_cash_flow data ''operating_cash_flow'' = None \<longrightarrow>
        csv_operating_cash_flow (prepare_data_for_csv_generic data) = 0)
   \<and> (complete_cash_flow data ''capital_expenditures'' = None \<longrightarrow>
        csv_capex (prepare_data_for_csv_generic data) = 0)
   \<and> (complete_cash_flow data ''free_cash_flow'' = None
        \<and> complete_cash_flow data ''free_cash_flow_calculated'' = None \<longrightarrow>
        csv_free_cash_flow (prepare_data_for_csv_generic data) = 0)"
proof -
  have a: "(\<forall>p\<in>set pats. fa p = []) \<and> map_of income_patterns k = Some pats \<longrightarrow>
      extract_income_statement_generic fa k = None"
    by (simp add: income_field extract_field_none)
  show ?thesis
    by (rule conjI[OF a])
       (simp add: prepare_data_for_csv_generic_def Let_def get0_def get_or_def)
qed

text \<open>The theorem at a text without any match, for the revenue.\<close>

theorem absent_metric_defaults_to_zero_witness:
  "map_of income_patterns ''revenue''
     = Some [Amount ''Total revenue'', Amount ''Revenue'', Amount ''Net sales'', Sales_amount]
   \<and> extract_income_statement_generic empty_filing ''revenue'' = None
   \<and> csv_revenue
        (prepare_data_for_csv_generic
           \<lparr>period = Map.empty,
            complete_income_statement = extract_income_statement_generic empty_filing,
            complete_balance_sheet = extract_balance_sheet_generic empty_filing,
            complete_cash_flow = extract_cash_flow_generic empty_filing,
            ticker = ''ACME''\<rparr>) = 0"
proof -
  let ?pats = "[Amount ''Total revenue'', Amount ''Revenue'', Amount ''Net sales'', Sales_amount]"
  let ?data = "\<lparr>period = Map.empty,
            complete_income_statement = extract_income_statement_generic empty_filing,
            complete_balance_sheet = extract_balance_sheet_generic empty_filing,
            complete_cash_flow = extract_cash_flow_generic empty_filing,
            ticker = ''ACME''\<rparr>"
  have h1: "\<forall>p\<in>set ?pats. empty_filing p = []" by (simp add: empty_filing_def)
  have h2: "map_of income_patterns ''revenue'' = Some ?pats" by (simp add: income_patterns_def)
  note t = absent_metric_defaults_to_zero[of ?pats empty_filing "''revenue''" ?data]
  from t h1 h2 have n: "extract_income_statement_generic empty_filing ''revenue'' = None"
    by blast
  then have "complete_income_statement ?data ''revenue'' = None" by simp
  with t have "csv_revenue (prepare_data_for_csv_generic ?data) = 0" by blast
  with h2 n show ?thesis by blast
qed

text \<open>
  A text in which nothing matches: no metric is extracted, and the assembled record
  stores the revenue 0.
\<close>

theorem assembled_record_counterexample:
  "extract_income_statement_generic empty_filing ''revenue'' = None
   \<and> csv_revenue (parse_financial_data empty_filing Map.empty ''ACME'') = 0"
  by (simp add: empty_filing_income parse_financial_data_def prepare_data_for_csv_generic_def
      Let_def get0_def)

lemma ratio_finite:
  "ratio (Some (Fin n)) (Some (Fin d)) = Inr (Some (Fin (quotient_or_0 n d)))"
  by (simp add: ratio_def if_else_0_def truthy_def py_truediv_def py_bind_def quotient_or_0_def)

lemma percent_finite:
  "percent (Some (Fin n)) (Some (Fin d)) = Inr (Some (Fin (quotient_or_0 n d * 100)))"
  by (simp add: percent_def if_else_0_def truthy_def py_truediv_def py_bind_def quotient_or_0_def)

lemma ratio_of_difference_finite:
  "ratio_of_difference (Some (Fin a)) (Some (Fin b)) (Some (Fin d))
     = Inr (Some (Fin (quotient_or_0 (a - b) d)))"
  by (simp add: ratio_of_difference_def if_else_0_def truthy_def py_truediv_def py_sub_def
      py_bind_def quotient_or_0_def)

lemma difference_finite:
  "difference (Some (Fin a)) (Some (Fin b)) = Inr (Some (Fin (a - b)))"
  by (simp add: difference_def py_sub_def py_bind_def)

lemmas finite_ratios =
  ratio_finite percent_finite ratio_of_difference_finite difference_finite

lemma falsy_denominator:
  "\<not> truthy d \<Longrightarrow> ratio n d = Inr (Some (Fin 0))"
  "\<not> truthy d \<Longrightarrow> percent n d = Inr (Some (Fin 0))"
  "\<not> truthy d \<Longrightarrow> ratio_of_difference a b d = Inr (Some (Fin 0))"
  by (simp_all add: ratio_def percent_def ratio_of_difference_def if_else_0_def)

lemma ratio_no_zero_division: "ratio n d \<noteq> Inl ZeroDivisionError"
  by (auto simp add: ratio_def if_else_0_def truthy_def py_truediv_def py_bind_def
      split: option.splits)

lemma percent_no_zero_division: "percent n d \<noteq> Inl ZeroDivisionError"
  by (auto simp add: percent_def if_else_0_def truthy_def py_truediv_def py_bind_def
      split: option.splits)

lemma ratio_of_difference_no_zero_division:
  "ratio_of_difference a b d \<noteq> Inl ZeroDivisionError"
  by (auto simp add: ratio_of_difference_def if_else_0_def truthy_def py_truediv_def py_sub_def
      py_bind_def split: option.splits)

lemma difference_no_zero_division: "difference a b \<noteq> Inl ZeroDivisionError"
  by (auto simp add: difference_def py_sub_def py_bind_def split: option.splits)

lemmas no_zero_division =
  ratio_no_zero_division percent_no_zero_division ratio_of_difference_no_zero_division
  difference_no_zero_division

lemma entries_db_no_zero_division:
  "e \<in> set (ratio_entries_db r bd) \<Longrightarrow> snd e \<noteq> Inl ZeroDivisionError"
  by (auto simp add: ratio_entries_db_def no_zero_division)

lemma entries_yearly_no_zero_division:
  "e \<in> set (ratio_entries_yearly r bd) \<Longrightarrow> snd e \<noteq> Inl ZeroDivisionError"
  by (auto simp add: ratio_entries_yearly_def no_zero_division)

lemma collect_error:
  "collect kvs = Inl err \<Longrightarrow> \<exists>e\<in>set kvs. snd e = Inl err"
  by (induction kvs) (auto split: sum.splits)

lemma nan_denominator:
  "ratio (Some (Fin n)) (Some NaN) = Inr (Some NaN)"
  by (simp add: ratio_def if_else_0_def truthy_def py_truediv_def py_bind_def)

lemma db_entries_finite:
  assumes "db_current_assets bd = Some (Fin ca)" "db_current_liabilities bd = Some (Fin cl)"
    "db_cash bd = Some (Fin csh)" "db_inventory bd = Some (Fin ivt)"
    "db_receivables bd = Some (Fin rcv)" "db_total_equity bd = Some (Fin te)"
    "total_assets r = Some (Fin ta)" "total_debt r = Some (Fin td)" "revenue r = Some (Fin rv)"
    "gross_profit r = Some (Fin gp)" "net_income r = Some (Fin ni)"
    "operating_cash_flow r = Some (Fin ocf)" "free_cash_flow r = Some (Fin fcf)"
  shows "ratio_entries_db r bd =
     [(''current_ratio'', Inr (Some (Fin (quotient_or_0 ca cl)))),
      (''quick_ratio'', Inr (Some (Fin (quotient_or_0 (ca - ivt) cl)))),
      (''cash_ratio'', Inr (Some (Fin (quotient_or_0 csh cl)))),
      (''debt_to_equity'', Inr (Some (Fin (quotient_or_0 td te)))),
      (''debt_to_assets'', Inr (Some (Fin (quotient_or_0 td ta)))),
      (''equity_multiplier'', Inr (Some (Fin (quotient_or_0 ta te)))),
      (''roe'', Inr (Some (Fin (quotient_or_0 ni te)))),
      (''roa'', Inr (Some (Fin (quotient_or_0 ni ta)))),
      (''return_on_tangible_equity'', Inr (Some (Fin (quotient_or_0 ni te)))),
      (''gross_margin'', Inr (Some (Fin (quotient_or_0 gp rv * 100)))),
      (''operating_margin'', Inr (Some (Fin (quotient_or_0 ni rv * 100)))),
      (''net_margin'', Inr (Some (Fin (quotient_or_0 ni rv * 100)))),
      (''asset_turnover'', Inr (Some (Fin (quotient_or_0 rv ta)))),
      (''inventory_turnover'', Inr (Some (Fin (quotient_or_0 rv ivt)))),
      (''receivables_turnover'', Inr (Some (Fin (quotient_or_0 rv rcv)))),
      (''operating_cash_flow_ratio'', Inr (Some (Fin (quotient_or_0 ocf cl)))),
      (''free_cash_flow_margin'', Inr (Some (Fin (quotient_or_0 fcf rv * 100)))),
      (''working_capital'', Inr (Some (Fin (ca - cl)))),
      (''net_debt'', Inr (Some (Fin (td - csh))))]"
  by (simp add: ratio_entries_db_def assms finite_ratios)

lemma yearly_entries_finite:
  assumes "yr_current_assets bd = Some (Fin ca)" "yr_current_liabilities bd = Some (Fin cl)"
    "yr_cash bd = Some (Fin csh)" "yr_inventory bd = Some (Fin ivt)"
    "yr_receivables bd = Some (Fin rcv)" "yr_total_assets bd = Some (Fin ta)"
    "yr_total_equity bd = Some (Fin te)" "yr_tangible_book_value bd = Some (Fin tbv)"
    "yr_total_debt bd = Some (Fin td)"
    "revenue r = Some (Fin rv)" "gross_profit r = Some (Fin gp)" "ebitda r = Some (Fin eb)"
    "net_income r = Some (Fin ni)" "operating_cash_flow r = Some (Fin ocf)"
    "free_cash_flow r = Some (Fin fcf)"
  shows "ratio_entries_yearly r bd =
     [(''current_ratio'', Inr (Some (Fin (quotient_or_0 ca cl)))),
      (''quick_ratio'', Inr (Some (Fin (quotient_or_0 (ca - ivt) cl)))),
      (''cash_ratio'', Inr (Some (Fin (quotient_or_0 csh cl)))),
      (''debt_to_equity'', Inr (Some (Fin (quotient_or_0 td te)))),
      (''debt_to_assets'', Inr (Some (Fin (quotient_or_0 td ta)))),
      (''equity_multiplier'', Inr (Some (Fin (quotient_or_0 ta te)))),
      (''roe'', Inr (Some (Fin (quotient_or_0 ni te)))),
      (''roa'', Inr (Some (Fin (quotient_or_0 ni ta)))),
      (''return_on_tangible_equity'', Inr (Some (Fin (quotient_or_0 ni tbv)))),
      (''gross_margin'', Inr (Some (Fin (quotient_or_0 gp rv * 100)))),
      (''operating_margin'', Inr (Some (Fin (quotient_or_0 eb rv * 100)))),
      (''net_margin'', Inr (Some (Fin (quotient_or_0 ni rv * 100)))),
      (''asset_turnover'', Inr (Some (Fin (quotient_or_0 rv ta)))),
      (''inventory_turnover'', Inr (Some (Fin (quotient_or_0 rv ivt)))),
      (''receivables_turnover'', Inr (Some (Fin (quotient_or_0 rv rcv)))),
      (''operating_cash_flow_ratio'', Inr (Some (Fin (quotient_or_0 ocf cl)))),
      (''free_cash_flow_margin'', Inr (Some (Fin (quotient_or_0 fcf rv * 100)))),
      (''working_capital'', Inr (yr_working_capital bd)),
      (''net_debt'', Inr (yr_net_debt bd))]"
  by (simp add: ratio_entries_yearly_def assms finite_ratios)

lemma db_falsy_denominators:
  "\<not> truthy (db_current_liabilities bd) \<Longrightarrow>
     \<forall>k\<in>set [''current_ratio'', ''quick_ratio'', ''cash_ratio'', ''operating_cash_flow_ratio''].
       map_of (ratio_entries_db r bd) k = Some (Inr (Some (Fin 0)))"
  "\<not> truthy (db_total_equity bd) \<Longrightarrow>
     \<forall>k\<in>set [''debt_to_equity'', ''equity_multiplier'', ''roe'', ''return_on_tangible_equity''].
       map_of (ratio_entries_db r bd) k = Some (Inr (Some (Fin 0)))"
  "\<not> truthy (total_assets r) \<Longrightarrow>
     \<forall>k\<in>set [''debt_to_assets'', ''roa'', ''asset_turnover''].
       map_of (ratio_entries_db r bd) k = Some (Inr (Some (Fin 0)))"
  "\<not> truthy (revenue r) \<Longrightarrow>
     \<forall>k\<in>set [''gross_margin'', ''operating_margin'', ''net_margin'', ''free_cash_flow_margin''].
       map_of (ratio_entries_db r bd) k = Some (Inr (Some (Fin 0)))"
  "\<not> truthy (db_inventory bd) \<Longrightarrow>
     map_of (ratio_entries_db r bd) ''inventory_turnover'' = Some (Inr (Some (Fin 0)))"
  "\<not> truthy (db_receivables bd) \<Longrightarrow>
     map_of (ratio_entries_db r bd) ''receivables_turnover'' = Some (Inr (Some (Fin 0)))"
  by (simp_all add: ratio_entries_db_def falsy_denominator)

lemma yearly_falsy_denominators:
  "\<not> truthy (yr_current_liabilities bd) \<Longrightarrow>
     \<forall>k\<in>set [''current_ratio'', ''quick_ratio'', ''cash_ratio'', ''operating_cash_flow_ratio''].
       map_of (ratio_entries_yearly r bd) k = Some (Inr (Some (Fin 0)))"
  "\<not> truthy (yr_total_equity bd) \<Longrightarrow>
     \<forall>k\<in>set [''debt_to_equity'', ''equity_multiplier'', ''roe''].
       map_of (ratio_entries_yearly r bd) k = Some (Inr (Some (Fin 0)))"
  "\<not> truthy (yr_tangible_book_value bd) \<Longrightarrow>
     map_of (ratio_entries_yearly r bd) ''return_on_tangible_equity'' = Some (Inr (Some (Fin 0)))"
  "\<not> truthy (yr_total_assets bd) \<Longrightarrow>
     \<forall>k\<in>set [''debt_to_assets'', ''roa'', ''asset_turnover''].
       map_of (ratio_entries_yearly r bd) k = Some (Inr (Some (Fin 0)))"
  "\<not> truthy (revenue r) \<Longrightarrow>
     \<forall>k\<in>set [''gross_margin'', ''operating_margin'', ''net_margin'', ''free_cash_flow_margin''].
       map_of (ratio_entries_yearly r bd) k = Some (Inr (Some (Fin 0)))"
  "\<not> truthy (yr_inventory bd) \<Longrightarrow>
     map_of (ratio_entries_yearly r bd) ''inventory_turnover'' = Some (Inr (Some (Fin 0)))"
  "\<not> truthy (yr_receivables bd) \<Longrightarrow>
     map_of (ratio_entries_yearly r bd) ''receivables_turnover'' = Some (Inr (Some (Fin 0)))"
  by (simp_all add: ratio_entries_yearly_def falsy_denominator)

subsection \<open>Ratios and their denominators\<close>

text \<open>
  C4. In both ratio dictionaries, when every operand is a finite number (a balance-sheet
  account that is missing counts as 0), each ratio with a denominator is the numerator
  divided by the denominator when the denominator is not zero and 0 when it is zero,
  the four margins being that quotient times 100. Whatever the numerator, a ratio whose
  denominator is zero or \<open>None\<close> is 0. No entry of either dictionary, and so neither
  dictionary, raises ZeroDivisionError on any input. NaN is not intercepted: with
  current liabilities of NaN the current ratio is NaN.
\<close>

theorem ratio_division_guard:
  "(db_current_assets bd = Some (Fin ca) \<and> db_current_liabilities bd = Some (Fin cl)
      \<and> db_cash bd = Some (Fin csh) \<and> db_inventory bd = Some (Fin ivt)
      \<and> db_receivables bd = Some (Fin rcv) \<and> db_total_equity bd = Some (Fin te)
      \<and> total_assets r = Some (Fin ta) \<and> total_debt r = Some (Fin td)
      \<and> revenue r = Some (Fin rv) \<and> gross_profit r = Some (Fin gp)
      \<and> net_income r = Some (Fin ni) \<and> operating_cash_flow r = Some (Fin ocf)
      \<and> free_cash_flow r = Some (Fin fcf) \<longrightarrow>
      ratio_entries_db r bd =
         [(''current_ratio'', Inr (Some (Fin (quotient_or_0 ca cl)))),
          (''quick_ratio'', Inr (Some (Fin (quotient_or_0 (ca - ivt) cl)))),
          (''cash_ratio'', Inr (Some (Fin (quotient_or_0 csh cl)))),
          (''debt_to_equity'', Inr (Some (Fin (quotient_or_0 td te)))),
          (''debt_to_assets'', Inr (Some (Fin (quotient_or_0 td ta)))),
          (''equity_multiplier'', Inr (Some (Fin (quotient_or_0 ta te)))),
          (''roe'', Inr (Some (Fin (quotient_or_0 ni te)))),
          (''roa'', Inr (Some (Fin (quotient_or_0 ni ta)))),
          (''return_on_tangible_equity'', Inr (Some (Fin (quotient_or_0 ni te)))),
          (''gross_margin'', Inr (Some (Fin (quotient_or_0 gp rv * 100)))),
          (''operating_margin'', Inr (Some (Fin (quotient_or_0 ni rv * 100)))),
          (''net_margin'', Inr (Some (Fin (quotient_or_0 ni rv * 100)))),
          (''asset_turnover'', Inr (Some (Fin (quotient_or_0 rv ta)))),
          (''inventory_turnover'', Inr (Some (Fin (quotient_or_0 rv ivt)))),
          (''receivables_turnover'', Inr (Some (Fin (quotient_or_0 rv rcv)))),
          (''operating_cash_flow_ratio'', Inr (Some (Fin (quotient_or_0 ocf cl)))),
          (''free_cash_flow_margin'', Inr (Some (Fin (quotient_or_0 fcf rv * 100)))),
          (''working_capital'', Inr (Some (Fin (ca - cl)))),
          (''net_debt'', Inr (Some (Fin (td - csh))))])
   \<and> (yr_current_assets bd = Some (Fin ca) \<and> yr_current_liabilities bd = Some (Fin cl)
      \<and> yr_cash bd = Some (Fin csh) \<and> yr_inventory bd = Some (Fin ivt)
      \<and> yr_receivables bd = Some (Fin rcv) \<and> yr_total_assets bd = Some (Fin ta)
      \<and> yr_total_equity bd = Some (Fin te) \<and> yr_tangible_book_value bd = Some (Fin tbv)
      \<and> yr_total_debt bd = Some (Fin td)
      \<and> revenue r = Some (Fin rv) \<and> gross_profit r = Some (Fin gp) \<and> ebitda r = Some (Fin eb)
      \<and> net_income r = Some (Fin ni) \<and> operating_cash_flow r = Some (Fin ocf)
      \<and> free_cash_flow r = Some (Fin fcf) \<longrightarrow>
      ratio_entries_yearly r bd =
         [(''current_ratio'', Inr (Some (Fin (quotient_or_0 ca cl)))),
          (''quick_ratio'', Inr (Some (Fin (quotient_or_0 (ca - ivt) cl)))),
          (''cash_ratio'', Inr (Some (Fin (quotient_or_0 csh cl)))),
          (''debt_to_equity'', Inr (Some (Fin (quotient_or_0 td te)))),
          (''debt_to_assets'', Inr (Some (Fin (quotient_or_0 td ta)))),
          (''equity_multiplier'', Inr (Some (Fin (quotient_or_0 ta te)))),
          (''roe'', Inr (Some (Fin (quotient_or_0 ni te)))),
          (''roa'', Inr (Some (Fin (quotient_or_0 ni ta)))),
          (''return_on_tangible_equity'', Inr (Some (Fin (quotient_or_0 ni tbv)))),
          (''gross_margin'', Inr (Some (Fin (quotient_or_0 gp rv * 100)))),
          (''operating_margin'', Inr (Some (Fin (quotient_or_0 eb rv * 100)))),
          (''net_margin'', Inr (Some (Fin (quotient_or_0 ni rv * 100)))),
          (''asset_turnover'', Inr (Some (Fin (quotient_or_0 rv ta)))),
          (''inventory_turnover'', Inr (Some (Fin (quotient_or_0 rv ivt)))),
          (''receivables_turnover'', Inr (Some (Fin (quotient_or_0 rv rcv)))),
          (''operating_cash_flow_ratio'', Inr (Some (Fin (quotient_or_0 ocf cl)))),
          (''free_cash_flow_margin'', Inr (Some (Fin (quotient_or_0 fcf rv * 100)))),
          (''working_capital'', Inr (yr_working_capital bd)),
          (''net_debt'', Inr (yr_net_debt bd))])
   \<and> (\<not> truthy (db_current_liabilities bd) \<longrightarrow>
        (\<forall>k\<in>set [''current_ratio'', ''quick_ratio'', ''cash_ratio'', ''operating_cash_flow_ratio''].
           map_of (ratio_entries_db r bd) k = Some (Inr (Some (Fin 0)))))
   \<and> (\<not> truthy (db_total_equity bd) \<longrightarrow>
        (\<forall>k\<in>set [''debt_to_equity'', ''equity_multiplier'', ''roe'', ''return_on_tangible_equity''].
           map_of (ratio_entries_db r bd) k = Some (Inr (Some (Fin 0)))))
   \<and> (\<not> truthy (total_assets r) \<longrightarrow>
        (\<forall>k\<in>set [''debt_to_assets'', ''roa'', ''asset_turnover''].
           map_of (ratio_entries_db r bd) k = Some (Inr (Some (Fin 0)))))
   \<and> (\<not> truthy (revenue r) \<longrightarrow>
        (\<forall>k\<in>set [''gross_margin'', ''operating_margin'', ''net_margin'', ''free_cash_flow_margin''].
           map_of (ratio_entries_db r bd) k = Some (Inr (Some (Fin 0)))))
   \<and> (\<not> truthy (db_inventory bd) \<longrightarrow>
        map_of (ratio_entries_db r bd) ''inventory_turnover'' = Some (Inr (Some (Fin 0))))
   \<and> (\<not> truthy (db_receivables bd) \<longrightarrow>
        map_of (ratio_entries_db r bd) ''receivables_turnover'' = Some (Inr (Some (Fin 0))))
   \<and> (\<not> truthy (yr_current_liabilities bd) \<longrightarrow>
        (\<forall>k\<in>set [''current_ratio'', ''quick_ratio'', ''cash_ratio'', ''operating_cash_flow_ratio''].
           map_of (ratio_entries_yearly r bd) k = Some (Inr (Some (Fin 0)))))
   \<and> (\<not> truthy (yr_total_equity bd) \<longrightarrow>
        (\<forall>k\<in>set [''debt_to_equity'', ''equity_multiplier'', ''roe''].
           map_of (ratio_entries_yearly r bd) k = Some (Inr (Some (Fin 0)))))
   \<and> (\<not> truthy (yr_tangible_book_value bd) \<longrightarrow>
        map_of (ratio_entries_yearly r bd) ''return_on_tangible_equity'' = Some (Inr (Some (Fin 0))))
   \<and> (\<not> truthy (yr_total_assets bd) \<longrightarrow>
        (\<forall>k\<in>set [''debt_to_assets'', ''roa'', ''asset_turnover''].
           map_of (ratio_entries_yearly r bd) k = Some (Inr (Some (Fin 0)))))
   \<and> (\<not> truthy (revenue r) \<longrightarrow>
        (\<forall>k\<in>set [''gross_margin'', ''operating_margin'', ''net_margin'', ''free_cash_flow_margin''].
           map_of (ratio_entries_yearly r bd) k = Some (Inr (Some (Fin 0)))))
   \<and> (\<not> truthy (yr_inventory bd) \<longrightarrow>
        map_of (ratio_entries_yearly r bd) ''inventory_turnover'' = Some (Inr (Some (Fin 0))))
   \<and> (\<not> truthy (yr_receivables bd) \<longrightarrow>
        map_of (ratio_entries_yearly r bd) ''receivables_turnover'' = Some (Inr (Some (Fin 0))))
   \<and> (\<forall>e\<in>set (ratio_entries_db r bd). snd e \<noteq> Inl ZeroDivisionError)
   \<and> (\<forall>e\<in>set (ratio_entries_yearly r bd). snd e \<noteq> Inl ZeroDivisionError)
   \<and> calculate_financial_ratios r bd \<noteq> Inl ZeroDivisionError
   \<and> calculate_and_save_ratios r bd \<noteq> Inl ZeroDivisionError
   \<and> (bd ''CurrentLiabilities'' = None \<and> bd ''TotalCurrentLiabilities'' = None \<longrightarrow>
        db_current_liabilities bd = Some (Fin 0))
   \<and> (bd ''Current Liabilities'' = None \<longrightarrow> yr_current_liabilities bd = Some (Fin 0))
   \<and> (db_current_assets bd = Some (Fin ca) \<and> db_current_liabilities bd = Some NaN \<longrightarrow>
        map_of (ratio_entries_db r bd) ''current_ratio'' = Some (Inr (Some NaN)))"
proof -
  have a0: "(db_current_assets bd = Some (Fin ca) \<and> db_current_liabilities bd = Some (Fin cl)
        \<and> db_cash bd = Some (Fin csh) \<and> db_inventory bd = Some (Fin ivt)
        \<and> db_receivables bd = Some (Fin rcv) \<and> db_total_equity bd = Some (Fin te)
        \<and> total_assets r = Some (Fin ta) \<and> total_debt r = Some (Fin td)
        \<and> revenue r = Some (Fin rv) \<and> gross_profit r = Some (Fin gp)
        \<and> net_income r = Some (Fin ni) \<and> operating_cash_flow r = Some (Fin ocf)
        \<and> free_cash_flow r = Some (Fin fcf) \<longrightarrow>
        ratio_entries_db r bd =
           [(''current_ratio'', Inr (Some (Fin (quotient_or_0 ca cl)))),
            (''quick_ratio'', Inr (Some (Fin (quotient_or_0 (ca - ivt) cl)))),
            (''cash_ratio'', Inr (Some (Fin (quotient_or_0 csh cl)))),
            (''debt_to_equity'', Inr (Some (Fin (quotient_or_0 td te)))),
            (''debt_to_assets'', Inr (Some (Fin (quotient_or_0 td ta)))),
            (''equity_multiplier'', Inr (Some (Fin (quotient_or_0 ta te)))),
            (''roe'', Inr (Some (Fin (quotient_or_0 ni te)))),
            (''roa'', Inr (Some (Fin (quotient_or_0 ni ta)))),
            (''return_on_tangible_equity'', Inr (Some (Fin (quotient_or_0 ni te)))),
            (''gross_margin'', Inr (Some (Fin (quotient_or_0 gp rv * 100)))),
            (''operating_margin'', Inr (Some (Fin (quotient_or_0 ni rv * 100)))),
            (''net_margin'', Inr (Some (Fin (quotient_or_0 ni rv * 100)))),
            (''asset_turnover'', Inr (Some (Fin (quotient_or_0 rv ta)))),
            (''inventory_turnover'', Inr (Some (Fin (quotient_or_0 rv ivt)))),
            (''receivables_turnover'', Inr (Some (Fin (quotient_or_0 rv rcv)))),
            (''operating_cash_flow_ratio'', Inr (Some (Fin (quotient_or_0 ocf cl)))),
            (''free_cash_flow_margin'', Inr (Some (Fin (quotient_or_0 fcf rv * 100)))),
            (''working_capital'', Inr (Some (Fin (ca - cl)))),
            (''net_debt'', Inr (Some (Fin (td - csh))))])"
    by (intro impI, elim conjE, rule db_entries_finite)
  have a1: "(yr_current_assets bd = Some (Fin ca) \<and> yr_current_liabilities bd = Some (Fin cl)
        \<and> yr_cash bd = Some (Fin csh) \<and> yr_inventory bd = Some (Fin ivt)
        \<and> yr_receivables bd = Some (Fin rcv) \<and> yr_total_assets bd = Some (Fin ta)
        \<and> yr_total_equity bd = Some (Fin te) \<and> yr_tangible_book_value bd = Some (Fin tbv)
        \<and> yr_total_debt bd = Some (Fin td)
        \<and> revenue r = Some (Fin rv) \<and> gross_profit r = Some (Fin gp) \<and> ebitda r = Some (Fin eb)
        \<and> net_income r = Some (Fin ni) \<and> operating_cash_flow r = Some (Fin ocf)
        \<and> free_cash_flow r = Some (Fin fcf) \<longrightarrow>
        ratio_entries_yearly r bd =
           [(''current_ratio'', Inr (Some (Fin (quotient_or_0 ca cl)))),
            (''quick_ratio'', Inr (Some (Fin (quotient_or_0 (ca - ivt) cl)))),
            (''cash_ratio'', Inr (Some (Fin (quotient_or_0 csh cl)))),
            (''debt_to_equity'', Inr (Some (Fin (quotient_or_0 td te)))),
            (''debt_to_assets'', Inr (Some (Fin (quotient_or_0 td ta)))),
            (''equity_multiplier'', Inr (Some (Fin (quotient_or_0 ta te)))),
            (''roe'', Inr (Some (Fin (quotient_or_0 ni te)))),
            (''roa'', Inr (Some (Fin (quotient_or_0 ni ta)))),
            (''return_on_tangible_equity'', Inr (Some (Fin (quotient_or_0 ni tbv)))),
            (''gross_margin'', Inr (Some (Fin (quotient_or_0 gp rv * 100)))),
            (''operating_margin'', Inr (Some (Fin (quotient_or_0 eb rv * 100)))),
            (''net_margin'', Inr (Some (Fin (quotient_or_0 ni rv * 100)))),
            (''asset_turnover'', Inr (Some (Fin (quotient_or_0 rv ta)))),
            (''inventory_turnover'', Inr (Some (Fin (quotient_or_0 rv ivt)))),
            (''receivables_turnover'', Inr (Some (Fin (quotient_or_0 rv rcv)))),
            (''operating_cash_flow_ratio'', Inr (Some (Fin (quotient_or_0 ocf cl)))),
            (''free_cash_flow_margin'', Inr (Some (Fin (quotient_or_0 fcf rv * 100)))),
            (''working_capital'', Inr (yr_working_capital bd)),
            (''net_debt'', Inr (yr_net_debt bd))])"
    by (intro impI, elim conjE, rule yearly_entries_finite)
  have a2: "(\<not> truthy (db_current_liabilities bd) \<longrightarrow>
          (\<forall>k\<in>set [''current_ratio'', ''quick_ratio'', ''cash_ratio'', ''operating_cash_flow_ratio''].
             map_of (ratio_entries_db r bd) k = Some (Inr (Some (Fin 0)))))"
    by (simp add: db_falsy_denominators)
  have a3: "(\<not> truthy (db_total_equity bd) \<longrightarrow>
          (\<forall>k\<in>set [''debt_to_equity'', ''equity_multiplier'', ''roe'', ''return_on_tangible_equity''].
             map_of (ratio_entries_db r bd) k = Some (Inr (Some (Fin 0)))))"
    by (simp add: db_falsy_denominators)
  have a4: "(\<not> truthy (total_assets r) \<longrightarrow>
          (\<forall>k\<in>set [''debt_to_assets'', ''roa'', ''asset_turnover''].
             map_of (ratio_entries_db r bd) k = Some (Inr (Some (Fin 0)))))"
    by (simp add: db_falsy_denominators)
  have a5: "(\<not> truthy (revenue r) \<longrightarrow>
          (\<forall>k\<in>set [''gross_margin'', ''operating_margin'', ''net_margin'', ''free_cash_flow_margin''].
             map_of (ratio_entries_db r bd) k = Some (Inr (Some (Fin 0)))))"
    by (simp add: db_falsy_denominators)
  have a6: "(\<not> truthy (db_inventory bd) \<longrightarrow>
          map_of (ratio_entries_db r bd) ''inventory_turnover'' = Some (Inr (Some (Fin 0))))"
    by (simp add: db_falsy_denominators)
  have a7: "(\<not> truthy (db_receivables bd) \<longrightarrow>
          map_of (ratio_entries_db r bd) ''receivables_turnover'' = Some (Inr (Some (Fin 0))))"
    by (simp add: db_falsy_denominators)
  have a8: "(\<not> truthy (yr_current_liabilities bd) \<longrightarrow>
          (\<forall>k\<in>set [''current_ratio'', ''quick_ratio'', ''cash_ratio'', ''operating_cash_flow_ratio''].
             map_of (ratio_entries_yearly r bd) k = Some (Inr (Some (Fin 0)))))"
    by (simp add: yearly_falsy_denominators)
  have a9: "(\<not> truthy (yr_total_equity bd) \<longrightarrow>
          (\<forall>k\<in>set [''debt_to_equity'', ''equity_multiplier'', ''roe''].
             map_of (ratio_entries_yearly r bd) k = Some (Inr (Some (Fin 0)))))"
    by (simp add: yearly_falsy_denominators)
  have a10: "(\<not> truthy (yr_tangible_book_value bd) \<longrightarrow>
          map_of (ratio_entries_yearly r bd) ''return_on_tangible_equity'' = Some (Inr (Some (Fin 0))))"
    by (simp add: yearly_falsy_denominators)
  have a11: "(\<not> truthy (yr_total_assets bd) \<longrightarrow>
          (\<forall>k\<in>set [''debt_to_assets'', ''roa'', ''asset_turnover''].
             map_of (ratio_entries_yearly r bd) k = Some (Inr (Some (Fin 0)))))"
    by (simp add: yearly_falsy_denominators)
  have a12: "(\<not> truthy (revenue r) \<longrightarrow>
          (\<forall>k\<in>set [''gross_margin'', ''operating_margin'', ''net_margin'', ''free_cash_flow_margin''].
             map_of (ratio_entries_yearly r bd) k = Some (Inr (Some (Fin 0)))))"
    by (simp add: yearly_falsy_denominators)
  have a13: "(\<not> truthy (yr_inventory bd) \<longrightarrow>
          map_of (ratio_entries_yearly r bd) ''inventory_turnover'' = Some (Inr (Some (Fin 0))))"
    by (simp add: yearly_falsy_denominators)
  have a14: "(\<not> truthy (yr_receivables bd) \<longrightarrow>
          map_of (ratio_entries_yearly r bd) ''receivables_turnover'' = Some (Inr (Some (Fin 0))))"
    by (simp add: yearly_falsy_denominators)
  have a15: "(\<forall>e\<in>set (ratio_entries_db r bd). snd e \<noteq> Inl ZeroDivisionError)"
    using entries_db_no_zero_division by blast
  have a16: "(\<forall>e\<in>set (ratio_entries_yearly r bd). snd e \<noteq> Inl ZeroDivisionError)"
    using entries_yearly_no_zero_division by blast
  have a17: "calculate_financial_ratios r bd \<noteq> Inl ZeroDivisionError"
    using entries_db_no_zero_division collect_error[of "ratio_entries_db r bd" ZeroDivisionError]
    by (auto simp add: calculate_financial_ratios_def)
  have a18: "calculate_and_save_ratios r bd \<noteq> Inl ZeroDivisionError"
    using entries_yearly_no_zero_division collect_error[of "ratio_entries_yearly r bd" ZeroDivisionError]
    by (auto simp add: calculate_and_save_ratios_def)
  have a19: "(bd ''CurrentLiabilities'' = None \<and> bd ''TotalCurrentLiabilities'' = None \<longrightarrow>
          db_current_liabilities bd = Some (Fin 0))"
    by (simp add: db_current_liabilities_def jget_def zero_def)
  have a20: "(bd ''Current Liabilities'' = None \<longrightarrow> yr_current_liabilities bd = Some (Fin 0))"
    by (simp add: yr_current_liabilities_def jget_def zero_def)
  have a21: "(db_current_assets bd = Some (Fin ca) \<and> db_current_liabilities bd = Some NaN \<longrightarrow>
          map_of (ratio_entries_db r bd) ''current_ratio'' = Some (Inr (Some NaN)))"
    by (simp add: ratio_entries_db_def nan_denominator)
  show ?thesis
    by (intro conjI) (fact a0 a1 a2 a3 a4 a5 a6 a7 a8 a9 a10 a11 a12 a13 a14 a15 a16 a17 a18 a19 a20 a21)+
qed

lemma sample_operands:
  "db_current_assets sample_balance = Some (Fin 500)"
  "db_current_liabilities sample_balance = Some (Fin 0)"
  "db_cash sample_balance = Some (Fin 100)"
  "db_inventory sample_balance = Some (Fin 0)"
  "db_receivables sample_balance = Some (Fin 50)"
  "db_total_equity sample_balance = Some (Fin 600)"
  by (simp_all add: sample_balance_def db_current_assets_def db_current_liabilities_def
      db_cash_def db_inventory_def db_receivables_def db_total_equity_def jget_def zero_def)

lemma sample_columns:
  "total_assets sample_row = Some (Fin 1000)" "total_debt sample_row = Some (Fin 200)"
  "revenue sample_row = Some (Fin 800)" "gross_profit sample_row = Some (Fin 400)"
  "net_income sample_row = Some (Fin 100)" "operating_cash_flow sample_row = Some (Fin 150)"
  "free_cash_flow sample_row = Some (Fin 80)"
  by (simp_all add: sample_row_def)

text \<open>
  The theorem at the sample row and balance sheet, whose current liabilities are 0 and
  whose inventory account is missing.
\<close>

theorem ratio_division_guard_witness:
  "db_current_assets sample_balance = Some (Fin 500)
   \<and> db_current_liabilities sample_balance = Some (Fin 0)
   \<and> db_cash sample_balance = Some (Fin 100)
   \<and> db_inventory sample_balance = Some (Fin 0)
   \<and> db_receivables sample_balance = Some (Fin 50)
   \<and> db_total_equity sample_balance = Some (Fin 600)
   \<and> total_assets sample_row = Some (Fin 1000) \<and> total_debt sample_row = Some (Fin 200)
   \<and> revenue sample_row = Some (Fin 800) \<and> gross_profit sample_row = Some (Fin 400)
   \<and> net_income sample_row = Some (Fin 100) \<and> operating_cash_flow sample_row = Some (Fin 150)
   \<and> free_cash_flow sample_row = Some (Fin 80)
   \<and> \<not> truthy (db_current_liabilities sample_balance)
   \<and> calculate_financial_ratios sample_row sample_balance =
        Inr [(''current_ratio'', Some (Fin 0)),
             (''quick_ratio'', Some (Fin 0)),
             (''cash_ratio'', Some (Fin 0)),
             (''debt_to_equity'', Some (Fin (1 / 3))),
             (''debt_to_assets'', Some (Fin (1 / 5))),
             (''equity_multiplier'', Some (Fin (5 / 3))),
             (''roe'', Some (Fin (1 / 6))),
             (''roa'', Some (Fin (1 / 10))),
             (''return_on_tangible_equity'', Some (Fin (1 / 6))),
             (''gross_margin'', Some (Fin 50)),
             (''operating_margin'', Some (Fin (25 / 2))),
             (''net_margin'', Some (Fin (25 / 2))),
             (''asset_turnover'', Some (Fin (4 / 5))),
             (''inventory_turnover'', Some (Fin 0)),
             (''receivables_turnover'', Some (Fin 16)),
             (''operating_cash_flow_ratio'', Some (Fin 0)),
             (''free_cash_flow_margin'', Some (Fin 10)),
             (''working_capital'', Some (Fin 500)),
             (''net_debt'', Some (Fin 100))]
   \<and> map_of (ratio_entries_db sample_row sample_balance) ''current_ratio''
       = Some (Inr (Some (Fin 0)))"
proof -
  note t = ratio_division_guard[of sample_balance 500 0 100 0 50 600 sample_row 1000 200 800
             400 100 150 80]
  have f: "\<not> truthy (db_current_liabilities sample_balance)"
    by (simp add: sample_operands truthy_def)
  have e: "ratio_entries_db sample_row sample_balance =
         [(''current_ratio'', Inr (Some (Fin (quotient_or_0 500 0)))),
          (''quick_ratio'', Inr (Some (Fin (quotient_or_0 (500 - 0) 0)))),
          (''cash_ratio'', Inr (Some (Fin (quotient_or_0 100 0)))),
          (''debt_to_equity'', Inr (Some (Fin (quotient_or_0 200 600)))),
          (''debt_to_assets'', Inr (Some (Fin (quotient_or_0 200 1000)))),
          (''equity_multiplier'', Inr (Some (Fin (quotient_or_0 1000 600)))),
          (''roe'', Inr (Some (Fin (quotient_or_0 100 600)))),
          (''roa'', Inr (Some (Fin (quotient_or_0 100 1000)))),
          (''return_on_tangible_equity'', Inr (Some (Fin (quotient_or_0 100 600)))),
          (''gross_margin'', Inr (Some (Fin (quotient_or_0 400 800 * 100)))),
          (''operating_margin'', Inr (Some (Fin (quotient_or_0 100 800 * 100)))),
          (''net_margin'', Inr (Some (Fin (quotient_or_0 100 800 * 100)))),
          (''asset_turnover'', Inr (Some (Fin (quotient_or_0 800 1000)))),
          (''inventory_turnover'', Inr (Some (Fin (quotient_or_0 800 0)))),
          (''receivables_turnover'', Inr (Some (Fin (quotient_or_0 800 50)))),
          (''operating_cash_flow_ratio'', Inr (Some (Fin (quotient_or_0 150 0)))),
          (''free_cash_flow_margin'', Inr (Some (Fin (quotient_or_0 80 800 * 100)))),
          (''working_capital'', Inr (Some (Fin (500 - 0)))),
          (''net_debt'', Inr (Some (Fin (200 - 100))))]"
    by (rule t[THEN conjunct1, rule_format]) (simp add: sample_operands sample_columns)
  have c: "calculate_financial_ratios sample_row sample_balance =
        Inr [(''current_ratio'', Some (Fin 0)),
             (''quick_ratio'', Some (Fin 0)),
             (''cash_ratio'', Some (Fin 0)),
             (''debt_to_equity'', Some (Fin (1 / 3))),
             (''debt_to_assets'', Some (Fin (1 / 5))),
             (''equity_multiplier'', Some (Fin (5 / 3))),
             (''roe'', Some (Fin (1 / 6))),
             (''roa'', Some (Fin (1 / 10))),
             (''return_on_tangible_equity'', Some (Fin (1 / 6))),
             (''gross_margin'', Some (Fin 50)),
             (''operating_margin'', Some (Fin (25 / 2))),
             (''net_margin'', Some (Fin (25 / 2))),
             (''asset_turnover'', Some (Fin (4 / 5))),
             (''inventory_turnover'', Some (Fin 0)),
             (''receivables_turnover'', Some (Fin 16)),
             (''operating_cash_flow_ratio'', Some (Fin 0)),
             (''free_cash_flow_margin'', Some (Fin 10)),
             (''working_capital'', Some (Fin 500)),
             (''net_debt'', Some (Fin 100))]"
    by (simp add: calculate_financial_ratios_def e quotient_or_0_def)
  have m: "map_of (ratio_entries_db sample_row sample_balance) ''current_ratio''
       = Some (Inr (Some (Fin 0)))"
    by (rule t[THEN conjunct2, THEN conjunct2, THEN conjunct1, rule_format, OF f]) simp
  show ?thesis
    by (intro conjI) (fact sample_operands sample_columns f c m)+
qed

text \<open>
  The same row with a balance sheet whose current liabilities are NaN: the guard lets
  NaN through, and the four ratios over current liabilities and the working capital are
  NaN.
\<close>

theorem nan_ratio_counterexample:
  "calculate_financial_ratios sample_row nan_balance =
        Inr [(''current_ratio'', Some NaN),
             (''quick_ratio'', Some NaN),
             (''cash_ratio'', Some NaN),
             (''debt_to_equity'', Some (Fin (1 / 3))),
             (''debt_to_assets'', Some (Fin (1 / 5))),
             (''equity_multiplier'', Some (Fin (5 / 3))),
             (''roe'', Some (Fin (1 / 6))),
             (''roa'', Some (Fin (1 / 10))),
             (''return_on_tangible_equity'', Some (Fin (1 / 6))),
             (''gross_margin'', Some (Fin 50)),
             (''operating_margin'', Some (Fin (25 / 2))),
             (''net_margin'', Some (Fin (25 / 2))),
             (''asset_turnover'', Some (Fin (4 / 5))),
             (''inventory_turnover'', Some (Fin 0)),
             (''receivables_turnover'', Some (Fin 16)),
             (''operating_cash_flow_ratio'', Some NaN),
             (''free_cash_flow_margin'', Some (Fin 10)),
             (''working_capital'', Some NaN),
             (''net_debt'', Some (Fin 100))]"
  by (simp add: calculate_financial_ratios_def ratio_entries_db_def nan_balance_def
      sample_balance_def sample_row_def db_current_assets_def db_current_liabilities_def
      db_cash_def db_inventory_def db_receivables_def db_total_equity_def jget_def zero_def
      ratio_def percent_def ratio_of_difference_def difference_def if_else_0_def truthy_def
      py_truediv_def py_sub_def py_bind_def)

end
